theory Spec2Isabelle
  imports Main "HOL-Library.Char_ord" "HOL-Library.List_Lexorder" "HOL-Library.Multiset"
begin

section \<open>Dynamic documents and errors\<close>

text \<open>
  A decoded YAML document (Go's \<open>interface{}\<close> after \<open>yaml.Unmarshal\<close>, or
  \<open>map[string]interface{}\<close> for a mapping). Non-null scalars are kept by their text,
  which is what decoding into a Go \<open>string\<close> field stores.
\<close>

datatype yaml =
    YNull
  | YScalar string
  | YSeq "yaml list"
  | YMap "(string \<times> yaml) list"

text \<open>A parsed JSON value, as \<open>encoding/json\<close> reads it from the subprocess's output.\<close>

datatype json =
    JNull
  | JBool bool
  | JNumber string
  | JString string
  | JArray "json list"
  | JObject "(string \<times> json) list"

datatype json_error =
    SyntaxError
  | UnknownField string
  | TypeMismatch string

text \<open>
  Every error return of the two source files, one constructor per message, and the one
  run-time panic the code can reach (a method call on a nil \<open>*url.URL\<close>).
\<close>

datatype error =
    YamlDecodeFailed
  | UriNotSet
  | TypeNotSet
  | UrlParseFailed
  | UriHasUserInfo
  | UriHasQueryParams
  | UriHasPort
  | NilPointerDereference
  | HomeDirFailed
  | GetwdFailed
  | DirectCommandExtraPathParts
  | LookPathFailed string
  | EncodeInputFailed
  | TemplateFailed string
  | ExecFailed
  | DecodeOutputFailed json_error
  | ReadStateFailed
  | LoadStateFailed
  | AmbiguousOverrides
  | ReadInputFailed string
  | DecodeInputFailed string
  | OverridesFileReadFailed string
  | OverridesFileDecodeFailed string
  | OverridesFileApplyFailed string
  | OverridePropertyInvalid string
  | OverridePropertyUnmarshalFailed string
  | OverridePropertyApplyFailed string
  | UpgradeFailed
  | InvalidScoreFile string
  | AddWorkloadFailed string
  | ProjectEmpty
  | PrimeResourcesFailed
  | LoadProvisionersFailed
  | ProvisionResourcesFailed
  | OpenStateFailed
  | MarshalStateFailed
  | CloseStateFailed
  | MoveStateFailed
  | UnresolvedSecretRef string
  | RecodeFailed
  | ConvertFailed string
  | SerialiseFailed string
  | NoOutputFile
  | WriteOutputFailed
  | CompleteOutputFailed

section \<open>commandprov.go: the provisioner descriptor\<close>

record Provisioner =
  ProvisionerUri :: string
  ResType :: string
  ResClass :: "string option"
  ResId :: "string option"
  Args :: "string list"

text \<open>
  \<open>framework.ResourceUid\<close> is read only through its accessors \<open>Type()\<close>,
  \<open>Class()\<close> and \<open>Id()\<close>; the record holds what they return.
\<close>

record ResourceUid =
  uid_Type :: string
  uid_Class :: string
  uid_Id :: string

definition Uri :: "Provisioner \<Rightarrow> string" where
  "Uri p = ProvisionerUri p"

definition Match :: "Provisioner \<Rightarrow> ResourceUid \<Rightarrow> bool" where
  "Match p resUid =
     (if uid_Type resUid \<noteq> ResType p then False
      else if ResClass p \<noteq> None \<and> uid_Class resUid \<noteq> the (ResClass p) then False
      else if ResId p \<noteq> None \<and> uid_Id resUid \<noteq> the (ResId p) then False
      else True)"

section \<open>Library functions the resolver calls\<close>

text \<open>\<open>strings.Split(s, "/")\<close>: the pieces between separators, always at least one.\<close>

fun strings_Split :: "string \<Rightarrow> char \<Rightarrow> string list" where
  "strings_Split [] sep = [[]]"
| "strings_Split (c # cs) sep =
     (if c = sep then [] # strings_Split cs sep
      else (case strings_Split cs sep of
              [] \<Rightarrow> [[c]]
            | p # ps \<Rightarrow> (c # p) # ps))"

text \<open>\<open>strings.Join(parts, "/")\<close>.\<close>

fun strings_Join :: "string list \<Rightarrow> string" where
  "strings_Join [] = []"
| "strings_Join [p] = p"
| "strings_Join (p # q # ps) = p @ CHR ''/'' # strings_Join (q # ps)"

text \<open>
  \<open>filepath.Clean\<close> on a Unix path, element by element: empty and \<open>.\<close> elements are
  dropped, \<open>..\<close> removes the element before it, is dropped at the root, and is kept at
  the front of a relative path. The stack holds the elements kept so far, last first.
\<close>

fun cleanElems :: "bool \<Rightarrow> string list \<Rightarrow> string list \<Rightarrow> string list" where
  "cleanElems rooted acc [] = rev acc"
| "cleanElems rooted acc (e # es) =
     (if e = [] \<or> e = ''.'' then cleanElems rooted acc es
      else if e = ''..'' then
        (case acc of
           [] \<Rightarrow> if rooted then cleanElems rooted [] es else cleanElems rooted [''..''] es
         | a # as \<Rightarrow>
             if a \<noteq> ''..'' then cleanElems rooted as es
             else if rooted then cleanElems rooted acc es
             else cleanElems rooted (''..'' # acc) es)
      else cleanElems rooted (e # acc) es)"

definition filepath_Clean :: "string \<Rightarrow> string" where
  "filepath_Clean path =
     (if path = [] then ''.''
      else
        let rooted = (hd path = CHR ''/'');
            out = (if rooted then ''/'' else []) @
                  strings_Join (cleanElems rooted [] (strings_Split path (CHR ''/'')))
        in if out = [] then ''.'' else out)"

text \<open>\<open>filepath.Join\<close>: empty elements are ignored, the rest joined and cleaned.\<close>

definition filepath_Join :: "string list \<Rightarrow> string" where
  "filepath_Join elems =
     (let ne = filter (\<lambda>e. e \<noteq> []) elems
      in if ne = [] then [] else filepath_Clean (strings_Join ne))"

text \<open>\<open>filepath.Dir\<close>: all but the last element of the path, cleaned.\<close>

definition filepath_Dir :: "string \<Rightarrow> string" where
  "filepath_Dir path =
     filepath_Clean (rev (dropWhile (\<lambda>c. c \<noteq> CHR ''/'') (rev path)))"

text \<open>
  What the code reads of a parsed \<open>*url.URL\<close>: \<open>User\<close>, \<open>Hostname()\<close>,
  \<open>Port()\<close>, \<open>EscapedPath()\<close> and \<open>Query()\<close>. \<open>url.Parse\<close> itself is a
  parameter of the model: it returns \<open>None\<close> where the library returns a nil URL
  with an error.
\<close>

record url =
  url_User :: "string option"
  url_Hostname :: string
  url_Port :: string
  url_EscapedPath :: string
  url_Query :: "(string \<times> string list) list"

text \<open>The operating system as the resolver sees it; \<open>None\<close> is an error return.\<close>

record os_env =
  os_UserHomeDir :: "string option"
  os_Getwd :: "string option"
  exec_LookPath :: "string \<Rightarrow> string option"

section \<open>commandprov.go: decodeBinary\<close>

definition decodeBinary :: "(string \<Rightarrow> url option) \<Rightarrow> os_env \<Rightarrow> string \<Rightarrow> error + string" where
  "decodeBinary url_Parse os uri =
     (case url_Parse uri of
        None \<Rightarrow> Inl NilPointerDereference
      | Some parts \<Rightarrow>
          let pathParts = strings_Split (url_EscapedPath parts) (CHR ''/'') in
          if url_Hostname parts = [] then
            Inr (''/'' @ filepath_Join pathParts)
          else if url_Hostname parts = ''~'' then
            (case os_UserHomeDir os of
               None \<Rightarrow> Inl HomeDirFailed
             | Some homeDir \<Rightarrow> Inr (filepath_Join (homeDir # pathParts)))
          else if url_Hostname parts = ''.'' then
            (case os_Getwd os of
               None \<Rightarrow> Inl GetwdFailed
             | Some pwd \<Rightarrow> Inr (filepath_Join (pwd # pathParts)))
          else if url_Hostname parts = ''..'' then
            (case os_Getwd os of
               None \<Rightarrow> Inl GetwdFailed
             | Some pwd \<Rightarrow> Inr (filepath_Join (filepath_Dir pwd # pathParts)))
          else if length pathParts > 1 then
            Inl DirectCommandExtraPathParts
          else
            (case exec_LookPath os (url_Hostname parts) of
               None \<Rightarrow> Inl (LookPathFailed (url_Hostname parts))
             | Some b \<Rightarrow> Inr (filepath_Join (b # pathParts))))"

section \<open>commandprov.go: Parse\<close>

text \<open>
  \<open>Parse\<close> re-encodes the raw mapping and decodes it into a \<open>Provisioner\<close> with
  \<open>KnownFields(true)\<close>. The keys of a Go map are distinct, so the decoder is modelled
  field by field: a key that is no field of the struct is an error, a null leaves the
  field at its zero value, a scalar is stored by its text, and a sequence or mapping where
  a string is expected is a type error. \<open>None\<close> is any decode error.
\<close>

definition knownFields :: "string list" where
  "knownFields = [''uri'', ''type'', ''class'', ''id'', ''args'']"

fun decodeString :: "yaml \<Rightarrow> string option" where
  "decodeString YNull = Some []"
| "decodeString (YScalar s) = Some s"
| "decodeString (YSeq xs) = None"
| "decodeString (YMap kvs) = None"

fun decodeStringPtr :: "yaml \<Rightarrow> string option option" where
  "decodeStringPtr YNull = Some None"
| "decodeStringPtr (YScalar s) = Some (Some s)"
| "decodeStringPtr (YSeq xs) = None"
| "decodeStringPtr (YMap kvs) = None"

fun decodeItems :: "yaml list \<Rightarrow> string list option" where
  "decodeItems [] = Some []"
| "decodeItems (YNull # xs) = decodeItems xs"
| "decodeItems (YScalar s # xs) = map_option ((#) s) (decodeItems xs)"
| "decodeItems (YSeq ys # xs) = None"
| "decodeItems (YMap kvs # xs) = None"

fun decodeStringSlice :: "yaml \<Rightarrow> string list option" where
  "decodeStringSlice YNull = Some []"
| "decodeStringSlice (YSeq xs) = decodeItems xs"
| "decodeStringSlice (YScalar s) = None"
| "decodeStringSlice (YMap kvs) = None"

definition decodeField :: "(string \<times> yaml) list \<Rightarrow> string \<Rightarrow> (yaml \<Rightarrow> 'a option) \<Rightarrow> 'a \<Rightarrow> 'a option" where
  "decodeField raw key dec zero =
     (case map_of raw key of None \<Rightarrow> Some zero | Some v \<Rightarrow> dec v)"

definition yaml_DecodeProvisioner :: "(string \<times> yaml) list \<Rightarrow> Provisioner option" where
  "yaml_DecodeProvisioner raw =
     (if list_ex (\<lambda>k. k \<notin> set knownFields) (map fst raw) then None
      else
        (case decodeField raw ''uri'' decodeString [] of None \<Rightarrow> None | Some u \<Rightarrow>
        (case decodeField raw ''type'' decodeString [] of None \<Rightarrow> None | Some t \<Rightarrow>
        (case decodeField raw ''class'' decodeStringPtr None of None \<Rightarrow> None | Some c \<Rightarrow>
        (case decodeField raw ''id'' decodeStringPtr None of None \<Rightarrow> None | Some i \<Rightarrow>
        (case decodeField raw ''args'' decodeStringSlice [] of None \<Rightarrow> None | Some a \<Rightarrow>
          Some \<lparr>ProvisionerUri = u, ResType = t, ResClass = c, ResId = i, Args = a\<rparr>))))))"

definition Parse :: "(string \<Rightarrow> url option) \<Rightarrow> (string \<times> yaml) list \<Rightarrow> error + Provisioner" where
  "Parse url_Parse raw =
     (case yaml_DecodeProvisioner raw of
        None \<Rightarrow> Inl YamlDecodeFailed
      | Some p \<Rightarrow>
          if ProvisionerUri p = [] then Inl UriNotSet
          else if ResType p = [] then Inl TypeNotSet
          else
            (case url_Parse (ProvisionerUri p) of
               None \<Rightarrow> Inl UrlParseFailed
             | Some parts \<Rightarrow>
                 if url_User parts \<noteq> None then Inl UriHasUserInfo
                 else if length (url_Query parts) \<noteq> 0 then Inl UriHasQueryParams
                 else if url_Port parts \<noteq> [] then Inl UriHasPort
                 else Inr p))"

section \<open>commandprov.go: Provision\<close>

text \<open>
  \<open>provisioners.Input\<close> and \<open>provisioners.TemplateData\<close>, with the fields
  \<open>Provision\<close> copies from one to the other.
\<close>

record Input =
  in_ResourceGuid :: string
  in_ResourceUid :: string
  in_ResourceType :: string
  in_ResourceClass :: string
  in_ResourceId :: string
  in_ResourceParams :: json
  in_ResourceMetadata :: json
  in_ResourceState :: json
  in_SharedState :: json
  in_SourceWorkload :: string
  in_WorkloadServices :: json

record TemplateData =
  td_Guid :: string
  td_Uid :: string
  td_Type :: string
  td_Class :: string
  td_Id :: string
  td_Params :: json
  td_Metadata :: json
  td_State :: json
  td_Shared :: json
  td_SourceWorkload :: string
  td_WorkloadServices :: json

definition templateData :: "Input \<Rightarrow> TemplateData" where
  "templateData input =
     \<lparr>td_Guid = in_ResourceGuid input, td_Uid = in_ResourceUid input,
      td_Type = in_ResourceType input, td_Class = in_ResourceClass input,
      td_Id = in_ResourceId input, td_Params = in_ResourceParams input,
      td_Metadata = in_ResourceMetadata input, td_State = in_ResourceState input,
      td_Shared = in_SharedState input, td_SourceWorkload = in_SourceWorkload input,
      td_WorkloadServices = in_WorkloadServices input\<rparr>"

text \<open>
  The argument loop of \<open>Provision\<close>, lines 123 to 133. \<open>args\<close> is the cloned slice,
  updated in place at index \<open>i\<close>; \<open>arg\<close> is the loop variable, the element as the
  \<open>range\<close> clause read it at the start of the iteration. \<open>RenderTemplate\<close> belongs to
  a package outside these sources and is a parameter.
\<close>

fun renderArgs ::
  "(string \<Rightarrow> TemplateData \<Rightarrow> error + string) \<Rightarrow> TemplateData \<Rightarrow>
     string list \<Rightarrow> nat \<Rightarrow> string list \<Rightarrow> error + string list" where
  "renderArgs RenderTemplate data args i [] = Inr args"
| "renderArgs RenderTemplate data args i (arg # rest) =
     (let args1 = (if arg = ''<mode>'' then args[i := ''provision''] else args) in
      case RenderTemplate arg data of
        Inl err \<Rightarrow> Inl err
      | Inr rendered \<Rightarrow> renderArgs RenderTemplate data (args1[i := rendered]) (Suc i) rest)"

text \<open>
  Decoding into the \<open>ProvisionOutput\<close> struct with \<open>DisallowUnknownFields\<close>. The
  struct is declared outside these sources: its JSON field names, each with the values its
  type accepts, are the parameter \<open>outFields\<close>. An object key selects the field of that
  exact name, or else the first field whose folded name equals the folded key (the
  library's case folding is the parameter \<open>foldName\<close>). The decoder keeps the first
  error and goes on; a \<open>null\<close> member is skipped.
\<close>

definition findField ::
  "(string \<Rightarrow> string) \<Rightarrow> (string \<times> (json \<Rightarrow> bool)) list \<Rightarrow> string \<Rightarrow> (string \<times> (json \<Rightarrow> bool)) option" where
  "findField foldName outFields key =
     (case find (\<lambda>f. fst f = key) outFields of
        Some f \<Rightarrow> Some f
      | None \<Rightarrow> find (\<lambda>f. foldName (fst f) = foldName key) outFields)"

definition saveError :: "json_error option \<Rightarrow> json_error \<Rightarrow> json_error option" where
  "saveError saved err = (case saved of None \<Rightarrow> Some err | Some e \<Rightarrow> Some e)"

fun decodeMembers ::
  "(string \<Rightarrow> string) \<Rightarrow> (string \<times> (json \<Rightarrow> bool)) list \<Rightarrow> (string \<times> json) list \<Rightarrow>
     json_error option \<Rightarrow> (string \<times> json) list \<Rightarrow> json_error option \<times> (string \<times> json) list" where
  "decodeMembers foldName outFields [] saved out = (saved, out)"
| "decodeMembers foldName outFields ((key, v) # kvs) saved out =
     (case findField foldName outFields key of
        None \<Rightarrow> decodeMembers foldName outFields kvs (saveError saved (UnknownField key)) out
      | Some (name, accepts) \<Rightarrow>
          if v = JNull then decodeMembers foldName outFields kvs saved out
          else if accepts v then
            decodeMembers foldName outFields kvs saved
              ((name, v) # filter (\<lambda>kv. fst kv \<noteq> name) out)
          else decodeMembers foldName outFields kvs (saveError saved (TypeMismatch name)) out)"

definition decodeOutput ::
  "(string \<Rightarrow> string) \<Rightarrow> (string \<times> (json \<Rightarrow> bool)) list \<Rightarrow> json option \<Rightarrow> json_error + (string \<times> json) list" where
  "decodeOutput foldName outFields doc =
     (case doc of
        None \<Rightarrow> Inl SyntaxError
      | Some JNull \<Rightarrow> Inr []
      | Some (JObject kvs) \<Rightarrow>
          (case decodeMembers foldName outFields kvs None [] of
             (Some err, out) \<Rightarrow> Inl err
           | (None, out) \<Rightarrow> Inr out)
      | Some other \<Rightarrow> Inl (TypeMismatch ''ProvisionOutput''))"

text \<open>
  What \<open>Provision\<close> takes from outside: the URL parser, the operating system,
  \<open>json.Marshal\<close> of the request, the template renderer, the subprocess (binary,
  arguments and standard input to its standard output, \<open>None\<close> when \<open>cmd.Run\<close>
  returns an error), the JSON reader and the shape of \<open>ProvisionOutput\<close>.
\<close>

record prov_env =
  pe_url_Parse :: "string \<Rightarrow> url option"
  pe_os :: os_env
  pe_json_Marshal :: "Input \<Rightarrow> string option"
  pe_RenderTemplate :: "string \<Rightarrow> TemplateData \<Rightarrow> error + string"
  pe_cmd_Run :: "string \<Rightarrow> string list \<Rightarrow> string \<Rightarrow> string option"
  pe_json_Read :: "string \<Rightarrow> json option"
  pe_outputFields :: "(string \<times> (json \<Rightarrow> bool)) list"
  pe_foldName :: "string \<Rightarrow> string"

text \<open>A subprocess started: binary, arguments, standard input.\<close>

datatype spawn = Spawn string "string list" string

definition Provision ::
  "prov_env \<Rightarrow> Provisioner \<Rightarrow> Input \<Rightarrow> spawn list \<times> (error + (string \<times> json) list)" where
  "Provision env p input =
     (let data = templateData input in
      case decodeBinary (pe_url_Parse env) (pe_os env) (Uri p) of
        Inl err \<Rightarrow> ([], Inl err)
      | Inr bin \<Rightarrow>
          (case pe_json_Marshal env input of
             None \<Rightarrow> ([], Inl EncodeInputFailed)
           | Some rawInput \<Rightarrow>
               (case renderArgs (pe_RenderTemplate env) data (Args p) 0 (Args p) of
                  Inl err \<Rightarrow> ([], Inl err)
                | Inr args \<Rightarrow>
                    (case pe_cmd_Run env bin args rawInput of
                       None \<Rightarrow> ([Spawn bin args rawInput], Inl ExecFailed)
                     | Some stdout \<Rightarrow>
                         ([Spawn bin args rawInput],
                          case decodeOutput (pe_foldName env) (pe_outputFields env)
                                 (pe_json_Read env stdout) of
                            Inl err \<Rightarrow> Inl (DecodeOutputFailed err)
                          | Inr output \<Rightarrow> Inr output)))))"

section \<open>main.go: data and the outside world of generate\<close>

record Container =
  Image :: string
  container_Other :: yaml

record Workload =
  ApiVersion :: string
  Metadata :: yaml
  Containers :: "(string \<times> Container) list"
  workload_Other :: yaml

text \<open>
  \<open>project.State\<close>: the workloads by name, the resources by key, and the manifests of
  \<open>Extras\<close>. \<open>Workloads\<close> is a Go map; the list holds its entries.
\<close>

record State =
  Workloads :: "(string \<times> Workload) list"
  Resources :: "(string \<times> yaml) list"
  Manifests :: "yaml list"

text \<open>The command's flags: each value, and cobra's \<open>Changed\<close> bit where the code reads it.\<close>

record Flags =
  flag_overridesFile :: string
  flag_overridesFileChanged :: bool
  flag_overrideProperty :: "string list"
  flag_overridePropertyChanged :: bool
  flag_image :: string
  flag_output :: string

text \<open>
  Everything \<open>generate\<close> calls outside \<open>main.go\<close>: the file system, the YAML
  library, the score-go framework, and the packages of this repository that are not among
  these sources. \<open>None\<close> (or \<open>False\<close>) is an error return. \<open>loader_DefaultSuffix\<close> is
  the constant \<open>loader.DefaultSuffix\<close>. \<open>mapOrder\<close> is the order in which a
  \<open>range\<close> over the workloads map visits its keys. \<open>'obj\<close> is a converted deployment
  object, a \<open>runtime.Object\<close> that the serializer encodes.
\<close>

record 'obj gen_env =
  os_ReadFile :: "string \<Rightarrow> string option"
  yaml_DecodeState :: "string \<Rightarrow> State option"
  yaml_UnmarshalMap :: "string \<Rightarrow> (string \<times> yaml) list option"
  yaml_Unmarshal :: "string \<Rightarrow> yaml option"
  mergo_Merge :: "(string \<times> yaml) list \<Rightarrow> (string \<times> yaml) list \<Rightarrow> (string \<times> yaml) list option"
  ParseDotPathParts :: "string \<Rightarrow> string list"
  OverridePathInMap :: "(string \<times> yaml) list \<Rightarrow> string list \<Rightarrow> bool \<Rightarrow> yaml \<Rightarrow> (string \<times> yaml) list option"
  ApplyCommonUpgradeTransforms :: "(string \<times> yaml) list \<Rightarrow> ((string \<times> yaml) list \<times> string list) option"
  Validate :: "(string \<times> yaml) list \<Rightarrow> bool"
  MapSpec :: "(string \<times> yaml) list \<Rightarrow> Workload option"
  WithWorkload :: "State \<Rightarrow> Workload \<Rightarrow> string \<Rightarrow> State option"
  WithPrimedResources :: "State \<Rightarrow> State option"
  loader_DefaultSuffix :: string
  LoadProvisionersFromDirectory :: "string \<Rightarrow> string \<Rightarrow> Provisioner list option"
  ProvisionResources :: "State \<Rightarrow> Provisioner list \<Rightarrow> State option"
  os_OpenFile :: "string \<Rightarrow> bool"
  yaml_EncodeState :: "State \<Rightarrow> bool"
  file_Close :: "string \<Rightarrow> bool"
  os_Rename :: "string \<Rightarrow> string \<Rightarrow> bool"
  os_WriteFile :: "string \<Rightarrow> string \<Rightarrow> bool"
  FindFirstUnresolvedSecretRef :: "string \<Rightarrow> yaml \<Rightarrow> string option"
  yaml_Encode :: "yaml \<Rightarrow> string option"
  ConvertWorkload :: "State \<Rightarrow> string \<Rightarrow> 'obj list option"
  Serializer_Encode :: "'obj \<Rightarrow> string option"
  mapOrder :: "string list \<Rightarrow> string list"

text \<open>The calls of \<open>generate\<close> that touch the world, in the order they are made.\<close>

datatype event =
    ReadFile string
  | WithWorkloadCall string
  | WithPrimedResourcesCall
  | LoadProvisionersCall
  | ProvisionResourcesCall
  | OpenFile string
  | EncodeState string
  | CloseFile string
  | Rename string string
  | PrintStdout string
  | WriteFile string string

text \<open>A stage returns the events it caused and an error or its value.\<close>

type_synonym 'a stage = "event list \<times> (error + 'a)"

definition ok :: "'a \<Rightarrow> 'a stage" where
  "ok x = ([], Inr x)"

definition fail :: "error \<Rightarrow> 'a stage" where
  "fail err = ([], Inl err)"

definition call :: "event \<Rightarrow> 'a option \<Rightarrow> error \<Rightarrow> 'a stage" where
  "call ev result err = ([ev], case result of None \<Rightarrow> Inl err | Some x \<Rightarrow> Inr x)"

definition succeeded :: "bool \<Rightarrow> unit option" where
  "succeeded b = (if b then Some () else None)"

definition andThen :: "'a stage \<Rightarrow> ('a \<Rightarrow> 'b stage) \<Rightarrow> 'b stage" where
  "andThen m f =
     (case m of
        (t, Inl err) \<Rightarrow> (t, Inl err)
      | (t, Inr x) \<Rightarrow> (case f x of (t', r) \<Rightarrow> (t @ t', r)))"

text \<open>A deferred call runs when the function returns, whatever the result.\<close>

definition deferring :: "event \<Rightarrow> 'a stage \<Rightarrow> 'a stage" where
  "deferring ev m = (case m of (t, r) \<Rightarrow> (t @ [ev], r))"

definition projectDirectory :: string where
  "projectDirectory = ''.score-k8s''"

definition stateFileName :: string where
  "stateFileName = ''state.yaml''"

definition newline :: string where
  "newline = [CHR 0x0A]"

section \<open>main.go: overrides\<close>

text \<open>\<open>strings.SplitN(s, sep, 2)\<close>: cut at the first separator, if there is one.\<close>

definition strings_SplitN2 :: "string \<Rightarrow> char \<Rightarrow> string list" where
  "strings_SplitN2 s sep =
     (case dropWhile (\<lambda>c. c \<noteq> sep) s of
        [] \<Rightarrow> [s]
      | c # rest \<Rightarrow> [takeWhile (\<lambda>c. c \<noteq> sep) s, rest])"

definition parseAndApplyOverrideFile ::
  "'obj gen_env \<Rightarrow> string \<Rightarrow> (string \<times> yaml) list \<Rightarrow> (string \<times> yaml) list stage" where
  "parseAndApplyOverrideFile env entry spec =
     andThen (call (ReadFile entry) (os_ReadFile env entry) (OverridesFileReadFailed entry))
       (\<lambda>raw.
          case yaml_UnmarshalMap env raw of
            None \<Rightarrow> fail (OverridesFileDecodeFailed entry)
          | Some out \<Rightarrow>
              (case mergo_Merge env spec out of
                 None \<Rightarrow> fail (OverridesFileApplyFailed entry)
               | Some merged \<Rightarrow> ok merged))"

definition parseAndApplyOverrideProperty ::
  "'obj gen_env \<Rightarrow> string \<Rightarrow> (string \<times> yaml) list \<Rightarrow> error + (string \<times> yaml) list" where
  "parseAndApplyOverrideProperty env entry spec =
     (let parts = strings_SplitN2 entry (CHR ''='') in
      if length parts \<noteq> 2 then Inl (OverridePropertyInvalid entry)
      else if parts ! 1 = [] then
        (case OverridePathInMap env spec (ParseDotPathParts env (parts ! 0)) True YNull of
           None \<Rightarrow> Inl (OverridePropertyApplyFailed entry)
         | Some after \<Rightarrow> Inr after)
      else
        (case yaml_Unmarshal env (parts ! 1) of
           None \<Rightarrow> Inl (OverridePropertyUnmarshalFailed entry)
         | Some v \<Rightarrow>
             (case OverridePathInMap env spec (ParseDotPathParts env (parts ! 0)) False v of
                None \<Rightarrow> Inl (OverridePropertyApplyFailed entry)
              | Some after \<Rightarrow> Inr after)))"

fun applyOverrideProperties ::
  "'obj gen_env \<Rightarrow> string list \<Rightarrow> (string \<times> yaml) list \<Rightarrow> error + (string \<times> yaml) list" where
  "applyOverrideProperties env [] rawWorkload = Inr rawWorkload"
| "applyOverrideProperties env (overridePropertyEntry # rest) rawWorkload =
     (case parseAndApplyOverrideProperty env overridePropertyEntry rawWorkload of
        Inl err \<Rightarrow> Inl err
      | Inr after \<Rightarrow> applyOverrideProperties env rest after)"

definition applyImageOverride :: "string \<Rightarrow> Workload \<Rightarrow> Workload" where
  "applyImageOverride v workload =
     workload\<lparr>Containers :=
       map (\<lambda>(containerName, container).
              if Image container = ''.'' \<and> v \<noteq> [] then (containerName, container\<lparr>Image := v\<rparr>)
              else (containerName, container))
           (Containers workload)\<rparr>"

section \<open>main.go: generate\<close>

definition stateFile :: string where
  "stateFile = filepath_Join [projectDirectory, stateFileName]"

definition loadState :: "'obj gen_env \<Rightarrow> State stage" where
  "loadState env =
     andThen (call (ReadFile stateFile) (os_ReadFile env stateFile) ReadStateFailed)
       (\<lambda>raw. case yaml_DecodeState env raw of
                 None \<Rightarrow> fail LoadStateFailed
               | Some rawState \<Rightarrow> ok rawState)"

text \<open>
  The body of the loop over the input files, lines 159 to 214, in the order of the source:
  read and decode the file, apply the overrides, upgrade, validate and decode into a
  workload (with the image override), and add the workload to the state.
\<close>

definition readScoreFile :: "'obj gen_env \<Rightarrow> string \<Rightarrow> (string \<times> yaml) list stage" where
  "readScoreFile env arg =
     andThen (call (ReadFile arg) (os_ReadFile env arg) (ReadInputFailed arg))
       (\<lambda>raw. case yaml_UnmarshalMap env raw of
                 None \<Rightarrow> fail (DecodeInputFailed arg)
               | Some rawWorkload \<Rightarrow> ok rawWorkload)"

definition applyOverrides ::
  "'obj gen_env \<Rightarrow> Flags \<Rightarrow> (string \<times> yaml) list \<Rightarrow> (string \<times> yaml) list stage" where
  "applyOverrides env flags rawWorkload =
     andThen
       (if flag_overridesFile flags \<noteq> []
        then parseAndApplyOverrideFile env (flag_overridesFile flags) rawWorkload
        else ok rawWorkload)
       (\<lambda>overridden.
          case applyOverrideProperties env (flag_overrideProperty flags) overridden of
            Inl err \<Rightarrow> fail err
          | Inr patched \<Rightarrow> ok patched)"

definition decodeWorkload ::
  "'obj gen_env \<Rightarrow> Flags \<Rightarrow> string \<Rightarrow> (string \<times> yaml) list \<Rightarrow> error + Workload" where
  "decodeWorkload env flags arg rawWorkload =
     (case ApplyCommonUpgradeTransforms env rawWorkload of
        None \<Rightarrow> Inl UpgradeFailed
      | Some (upgraded, changes) \<Rightarrow>
          if \<not> Validate env upgraded then Inl (InvalidScoreFile arg)
          else
            (case MapSpec env upgraded of
               None \<Rightarrow> Inl (DecodeInputFailed arg)
             | Some workload \<Rightarrow> Inr (applyImageOverride (flag_image flags) workload)))"

definition ingestFile :: "'obj gen_env \<Rightarrow> Flags \<Rightarrow> State \<Rightarrow> string \<Rightarrow> State stage" where
  "ingestFile env flags state arg =
     andThen (readScoreFile env arg)
       (\<lambda>rawWorkload.
          andThen (applyOverrides env flags rawWorkload)
            (\<lambda>patched.
               case decodeWorkload env flags arg patched of
                 Inl err \<Rightarrow> fail err
               | Inr workload \<Rightarrow>
                   call (WithWorkloadCall arg) (WithWorkload env state workload arg)
                     (AddWorkloadFailed arg)))"

fun ingestFiles :: "'obj gen_env \<Rightarrow> Flags \<Rightarrow> State \<Rightarrow> string list \<Rightarrow> State stage" where
  "ingestFiles env flags state [] = ok state"
| "ingestFiles env flags state (arg # args) =
     andThen (ingestFile env flags state arg) (\<lambda>state'. ingestFiles env flags state' args)"

text \<open>Lines 137 to 215: the state as loaded and merged with the input files.\<close>

definition mergedState :: "'obj gen_env \<Rightarrow> Flags \<Rightarrow> string list \<Rightarrow> State stage" where
  "mergedState env flags args =
     andThen (loadState env)
       (\<lambda>state.
          if length args \<noteq> 1 \<and> (flag_overridesFileChanged flags \<or> flag_overridePropertyChanged flags)
          then fail AmbiguousOverrides
          else ingestFiles env flags state (sort args))"

text \<open>Lines 217 to 236: the empty check, priming, loading provisioners, provisioning.\<close>

definition provisionedState :: "'obj gen_env \<Rightarrow> Flags \<Rightarrow> string list \<Rightarrow> State stage" where
  "provisionedState env flags args =
     andThen (mergedState env flags args)
       (\<lambda>state.
          if length (Workloads state) = 0 then fail ProjectEmpty
          else
            andThen (call WithPrimedResourcesCall (WithPrimedResources env state) PrimeResourcesFailed)
              (\<lambda>primed.
                 andThen (call LoadProvisionersCall
                            (LoadProvisionersFromDirectory env projectDirectory (loader_DefaultSuffix env))
                            LoadProvisionersFailed)
                   (\<lambda>localProvisioners.
                      call ProvisionResourcesCall
                        (ProvisionResources env primed localProvisioners)
                        ProvisionResourcesFailed)))"

text \<open>Lines 255 to 267: the resource manifests of the state.\<close>

fun resourceManifests :: "'obj gen_env \<Rightarrow> string \<Rightarrow> yaml list \<Rightarrow> error + string" where
  "resourceManifests env out [] = Inr out"
| "resourceManifests env out (manifest # rest) =
     (case FindFirstUnresolvedSecretRef env [] manifest of
        Some p \<Rightarrow> Inl (UnresolvedSecretRef p)
      | None \<Rightarrow>
          (case yaml_Encode env manifest of
             None \<Rightarrow> Inl RecodeFailed
           | Some doc \<Rightarrow>
               resourceManifests env (out @ ''---'' @ newline @ doc @ newline) rest))"

text \<open>
  Lines 275 to 289: the manifests of one workload. The scanner reads the serialised
  manifest decoded again; a decoding error is ignored and leaves a nil document.
\<close>

definition intermediate :: "'obj gen_env \<Rightarrow> string \<Rightarrow> yaml" where
  "intermediate env subOut =
     (case yaml_Unmarshal env subOut of None \<Rightarrow> YNull | Some v \<Rightarrow> v)"

fun workloadManifests :: "'obj gen_env \<Rightarrow> string \<Rightarrow> string \<Rightarrow> 'obj list \<Rightarrow> error + string" where
  "workloadManifests env workloadName out [] = Inr out"
| "workloadManifests env workloadName out (m # rest) =
     (case Serializer_Encode env m of
        None \<Rightarrow> Inl (SerialiseFailed workloadName)
      | Some subOut \<Rightarrow>
          (case FindFirstUnresolvedSecretRef env [] (intermediate env subOut) of
             Some p \<Rightarrow> Inl (UnresolvedSecretRef p)
           | None \<Rightarrow>
               workloadManifests env workloadName
                 (out @ ''---'' @ newline @ subOut @ newline) rest))"

fun convertWorkloads :: "'obj gen_env \<Rightarrow> State \<Rightarrow> string \<Rightarrow> string list \<Rightarrow> error + string" where
  "convertWorkloads env state out [] = Inr out"
| "convertWorkloads env state out (workloadName # rest) =
     (case ConvertWorkload env state workloadName of
        None \<Rightarrow> Inl (ConvertFailed workloadName)
      | Some manifests \<Rightarrow>
          (case workloadManifests env workloadName out manifests of
             Inl err \<Rightarrow> Inl err
           | Inr out' \<Rightarrow> convertWorkloads env state out' rest))"

text \<open>Lines 252 to 291: the manifests buffer.\<close>

definition assemble :: "'obj gen_env \<Rightarrow> State \<Rightarrow> error + string" where
  "assemble env state =
     (case resourceManifests env [] (Manifests state) of
        Inl err \<Rightarrow> Inl err
      | Inr out \<Rightarrow> convertWorkloads env state out (mapOrder env (map fst (Workloads state))))"

text \<open>Lines 293 to 305: the buffer goes to standard output or to the output file.\<close>

definition emit :: "'obj gen_env \<Rightarrow> Flags \<Rightarrow> string \<Rightarrow> unit stage" where
  "emit env flags out =
     (let v = flag_output flags in
      if v = [] then fail NoOutputFile
      else if v = ''-'' then ([PrintStdout out], Inr ())
      else
        andThen (call (WriteFile (v @ ''.tmp'') out)
                   (succeeded (os_WriteFile env (v @ ''.tmp'') out)) WriteOutputFailed)
          (\<lambda>u. call (Rename (v @ ''.tmp'') v)
                  (succeeded (os_Rename env (v @ ''.tmp'') v)) CompleteOutputFailed))"

text \<open>
  Lines 242 to 248: the state goes to the temporary file, which is closed and renamed
  over the state file.
\<close>

definition writeState :: "'obj gen_env \<Rightarrow> State \<Rightarrow> string \<Rightarrow> unit stage" where
  "writeState env state tmp =
     andThen (call (EncodeState tmp) (succeeded (yaml_EncodeState env state)) MarshalStateFailed)
       (\<lambda>u. andThen (call (CloseFile tmp) (succeeded (file_Close env tmp)) CloseStateFailed)
          (\<lambda>u. call (Rename tmp stateFile) (succeeded (os_Rename env tmp stateFile))
                  MoveStateFailed))"

definition assembleAndEmit :: "'obj gen_env \<Rightarrow> Flags \<Rightarrow> State \<Rightarrow> unit stage" where
  "assembleAndEmit env flags state =
     (case assemble env state of
        Inl err \<Rightarrow> fail err
      | Inr out \<Rightarrow> emit env flags out)"

text \<open>
  \<open>generateCmd.RunE\<close>: the provisioned state is persisted (with the deferred
  \<open>f.Close()\<close> of line 241 running when the function returns), then the manifests are
  assembled and emitted.
\<close>

definition generate :: "'obj gen_env \<Rightarrow> Flags \<Rightarrow> string list \<Rightarrow> unit stage" where
  "generate env flags args =
     andThen (provisionedState env flags args)
       (\<lambda>state.
          let tmp = filepath_Join [projectDirectory, stateFileName @ ''.tmp''] in
          andThen (call (OpenFile tmp) (succeeded (os_OpenFile env tmp)) OpenStateFailed)
            (\<lambda>f. deferring (CloseFile tmp)
                    (andThen (writeState env state tmp)
                       (\<lambda>u. assembleAndEmit env flags state))))"


text \<open>The files handed to \<open>WithWorkload\<close>, in the order of the calls.\<close>

fun mergeCalls :: "event list \<Rightarrow> string list" where
  "mergeCalls [] = []"
| "mergeCalls (WithWorkloadCall f # t) = f # mergeCalls t"
| "mergeCalls (ev # t) = mergeCalls t"

text \<open>
  The workload an input file yields on its own (read, overridden, upgraded, validated and
  decoded; none of this looks at the project state), and the project state after merging a
  list of files with their workloads one after the other, each into the state the
  previous merge returned.
\<close>

definition fileWorkload :: "'obj gen_env \<Rightarrow> Flags \<Rightarrow> string \<Rightarrow> error + Workload" where
  "fileWorkload env flags arg =
     (case snd (readScoreFile env arg) of
        Inl err \<Rightarrow> Inl err
      | Inr rawWorkload \<Rightarrow>
          (case snd (applyOverrides env flags rawWorkload) of
             Inl err \<Rightarrow> Inl err
           | Inr patched \<Rightarrow> decodeWorkload env flags arg patched))"

fun mergeInOrder :: "'obj gen_env \<Rightarrow> State \<Rightarrow> (string \<times> Workload) list \<Rightarrow> State option" where
  "mergeInOrder env state [] = Some state"
| "mergeInOrder env state ((file, workload) # rest) =
     (case WithWorkload env state workload file of
        None \<Rightarrow> None
      | Some state' \<Rightarrow> mergeInOrder env state' rest)"

text \<open>The events of priming and provisioning.\<close>

fun isProvisioning :: "event \<Rightarrow> bool" where
  "isProvisioning WithPrimedResourcesCall = True"
| "isProvisioning LoadProvisionersCall = True"
| "isProvisioning ProvisionResourcesCall = True"
| "isProvisioning ev = False"

text \<open>The events of loading the state and ingesting the input files.\<close>

fun isIngestEvent :: "event \<Rightarrow> bool" where
  "isIngestEvent (ReadFile f) = True"
| "isIngestEvent (WithWorkloadCall f) = True"
| "isIngestEvent ev = False"


section \<open>Clean paths\<close>

text \<open>
  What \<open>filepath.Clean\<close> leaves on its stack: a path element proper (not empty, not
  \<open>.\<close>, not \<open>..\<close>, without separator) on top of such a stack, or \<open>..\<close> on top of
  nothing but \<open>..\<close>, and that only in a relative path.
\<close>

definition goodElem :: "string \<Rightarrow> bool" where
  "goodElem e \<longleftrightarrow> e \<noteq> [] \<and> e \<noteq> ''.'' \<and> e \<noteq> ''..'' \<and> CHR ''/'' \<notin> set e"

fun cleanStack :: "bool \<Rightarrow> string list \<Rightarrow> bool" where
  "cleanStack rooted [] = True"
| "cleanStack rooted (a # as) =
     (if a = ''..'' then \<not> rooted \<and> list_all (\<lambda>x. x = ''..'') as
      else goodElem a \<and> cleanStack rooted as)"

section \<open>Example inputs\<close>

text \<open>
  Concrete values on which the theorems below are instantiated: three provisioner URIs as
  \<open>url.Parse\<close> reads them, a machine with \<open>python\<close> on its search path, a renderer
  for templates without actions (the text is returned as it is), and a subprocess whose
  output has one field too many.
\<close>

definition ex_url_Parse :: "string \<Rightarrow> url option" where
  "ex_url_Parse uri =
     (if uri = ''cmd://python'' then
        Some \<lparr>url_User = None, url_Hostname = ''python'', url_Port = [],
              url_EscapedPath = [], url_Query = []\<rparr>
      else if uri = ''cmd://python/tools/run'' then
        Some \<lparr>url_User = None, url_Hostname = ''python'', url_Port = [],
              url_EscapedPath = ''/tools/run'', url_Query = []\<rparr>
      else if uri = ''cmd://dev@python'' then
        Some \<lparr>url_User = Some ''dev'', url_Hostname = ''python'', url_Port = [],
              url_EscapedPath = [], url_Query = []\<rparr>
      else None)"

definition ex_os :: os_env where
  "ex_os = \<lparr>os_UserHomeDir = Some ''/home/dev'', os_Getwd = Some ''/work'',
            exec_LookPath = (\<lambda>file. if file = ''python'' then Some ''/usr/bin/python'' else None)\<rparr>"

definition ex_input :: Input where
  "ex_input = \<lparr>in_ResourceGuid = ''0001'', in_ResourceUid = ''postgres.default#db'',
               in_ResourceType = ''postgres'', in_ResourceClass = ''default'',
               in_ResourceId = ''db'', in_ResourceParams = JObject [],
               in_ResourceMetadata = JObject [], in_ResourceState = JObject [],
               in_SharedState = JObject [], in_SourceWorkload = ''example'',
               in_WorkloadServices = JObject []\<rparr>"

definition ex_isObject :: "json \<Rightarrow> bool" where
  "ex_isObject v = (case v of JObject kvs \<Rightarrow> True | other \<Rightarrow> False)"

definition ex_isArray :: "json \<Rightarrow> bool" where
  "ex_isArray v = (case v of JArray xs \<Rightarrow> True | other \<Rightarrow> False)"

text \<open>Case folding of ASCII letters, as the JSON decoder compares field names.\<close>

definition ex_foldName :: "string \<Rightarrow> string" where
  "ex_foldName name =
     map (\<lambda>c. if CHR ''A'' \<le> c \<and> c \<le> CHR ''Z'' then char_of (of_char c + (32::nat)) else c) name"

definition ex_prov_env :: prov_env where
  "ex_prov_env =
     \<lparr>pe_url_Parse = ex_url_Parse,
      pe_os = ex_os,
      pe_json_Marshal = (\<lambda>input. Some ''{}''),
      pe_RenderTemplate = (\<lambda>arg data. Inr arg),
      pe_cmd_Run = (\<lambda>bin args stdin. Some ''stdout''),
      pe_json_Read = (\<lambda>stdout. Some (JObject [(''resource_outputs'', JObject []),
                                               (''comment'', JBool True)])),
      pe_outputFields = [(''resource_state'', ex_isObject), (''resource_outputs'', ex_isObject),
                         (''shared_state'', ex_isObject), (''manifests'', ex_isArray)],
      pe_foldName = ex_foldName\<rparr>"

text \<open>
  The same provisioner world with an output whose second key is spelled as no field of the
  schema is, but equals \<open>shared_state\<close> after case folding.
\<close>

definition ex_folding_env :: prov_env where
  "ex_folding_env =
     ex_prov_env\<lparr>pe_json_Read :=
       (\<lambda>stdout. Some (JObject [(''resource_outputs'', JObject []),
                                (''Shared_State'', JObject [(''region'', JString ''eu'')])]))\<rparr>"

definition ex_provisioner :: Provisioner where
  "ex_provisioner = \<lparr>ProvisionerUri = ''cmd://python'', ResType = ''postgres'',
                     ResClass = Some ''default'', ResId = None,
                     Args = [''--mode'', ''<mode>'']\<rparr>"

definition ex_raw :: "(string \<times> yaml) list" where
  "ex_raw = [(''uri'', YScalar ''cmd://python''), (''type'', YScalar ''postgres''),
             (''class'', YScalar ''default''),
             (''args'', YSeq [YScalar ''--mode'', YScalar ''<mode>''])]"

text \<open>
  A small world for \<open>generate\<close>: every file exists and holds its own name, a score
  file decodes to a document with that name and a \<open>foo\<close> mapping, overrides follow
  dotted paths through mappings, every file-system call succeeds, and the scanner reports
  a scalar \<open>secret-ref\<close> at the top of a document or one level below.
\<close>

fun ex_OverridePathInMap ::
  "(string \<times> yaml) list \<Rightarrow> string list \<Rightarrow> bool \<Rightarrow> yaml \<Rightarrow> (string \<times> yaml) list option" where
  "ex_OverridePathInMap doc [] isDelete v = None"
| "ex_OverridePathInMap doc [key] isDelete v =
     Some (if isDelete then filter (\<lambda>kv. fst kv \<noteq> key) doc
           else (key, v) # filter (\<lambda>kv. fst kv \<noteq> key) doc)"
| "ex_OverridePathInMap doc (key # rest) isDelete v =
     (case map_of doc key of
        Some (YMap sub) \<Rightarrow>
          (case ex_OverridePathInMap sub rest isDelete v of
             None \<Rightarrow> None
           | Some sub' \<Rightarrow> Some ((key, YMap sub') # filter (\<lambda>kv. fst kv \<noteq> key) doc))
      | other \<Rightarrow> None)"

definition ex_scan :: "string \<Rightarrow> yaml \<Rightarrow> string option" where
  "ex_scan prefix doc =
     (case doc of
        YScalar s \<Rightarrow> if s = ''secret-ref'' then Some prefix else None
      | YMap kvs \<Rightarrow>
          (case find (\<lambda>kv. snd kv = YScalar ''secret-ref'') kvs of
             None \<Rightarrow> None
           | Some kv \<Rightarrow> Some (prefix @ ''.'' @ fst kv))
      | other \<Rightarrow> None)"

definition ex_doc :: "string \<Rightarrow> (string \<times> yaml) list" where
  "ex_doc name = [(''metadata'', YMap [(''name'', YScalar name)]),
                  (''foo'', YMap [(''bar'', YScalar ''1''), (''baz'', YScalar ''2'')])]"

definition ex_workload :: "(string \<times> yaml) list \<Rightarrow> Workload" where
  "ex_workload doc =
     \<lparr>ApiVersion = ''score.dev/v1b1'',
      Metadata = (case map_of doc ''metadata'' of None \<Rightarrow> YNull | Some m \<Rightarrow> m),
      Containers = [(''main'', \<lparr>Image = ''.'', container_Other = YNull\<rparr>)],
      workload_Other = YMap doc\<rparr>"

definition ex_state :: State where
  "ex_state = \<lparr>Workloads = [], Resources = [],
               Manifests = [YMap [(''kind'', YScalar ''ConfigMap'')]]\<rparr>"

definition ex_gen_env :: "string gen_env" where
  "ex_gen_env =
     \<lparr>os_ReadFile = (\<lambda>path. Some path),
      yaml_DecodeState = (\<lambda>raw. Some ex_state),
      yaml_UnmarshalMap = (\<lambda>raw. Some (ex_doc raw)),
      yaml_Unmarshal = (\<lambda>text. Some (YScalar text)),
      mergo_Merge = (\<lambda>dst src. Some (src @ dst)),
      ParseDotPathParts = (\<lambda>path. strings_Split path (CHR ''.'')),
      OverridePathInMap = ex_OverridePathInMap,
      ApplyCommonUpgradeTransforms = (\<lambda>doc. Some (doc, [])),
      Validate = (\<lambda>doc. map_of doc ''metadata'' \<noteq> None),
      MapSpec = (\<lambda>doc. Some (ex_workload doc)),
      WithWorkload = (\<lambda>state workload file.
                        Some (state\<lparr>Workloads := Workloads state @ [(file, workload)]\<rparr>)),
      WithPrimedResources = (\<lambda>state. Some state),
      loader_DefaultSuffix = ''.provisioners.yaml'',
      LoadProvisionersFromDirectory = (\<lambda>dir suffix. Some [ex_provisioner]),
      ProvisionResources = (\<lambda>state provs. Some state),
      os_OpenFile = (\<lambda>path. True),
      yaml_EncodeState = (\<lambda>state. True),
      file_Close = (\<lambda>path. True),
      os_Rename = (\<lambda>old new. True),
      os_WriteFile = (\<lambda>path content. True),
      FindFirstUnresolvedSecretRef = ex_scan,
      yaml_Encode = (\<lambda>doc. Some ''kind: ConfigMap''),
      ConvertWorkload = (\<lambda>state workloadName. Some [workloadName @ ''-deployment'']),
      Serializer_Encode = (\<lambda>m. Some m),
      mapOrder = (\<lambda>keys. keys)\<rparr>"

text \<open>The state of that world after merging \<open>a.score.yaml\<close> and then \<open>b.score.yaml\<close>.\<close>

definition ex_merged_state :: State where
  "ex_merged_state =
     ex_state\<lparr>Workloads := [(''a.score.yaml'', ex_workload (ex_doc ''a.score.yaml'')),
                             (''b.score.yaml'', ex_workload (ex_doc ''b.score.yaml''))]\<rparr>"

text \<open>The same world with a project state that already holds a workload.\<close>

definition ex_loaded_env :: "string gen_env" where
  "ex_loaded_env =
     ex_gen_env\<lparr>yaml_DecodeState :=
       (\<lambda>raw. Some (ex_state\<lparr>Workloads := [(''example'', ex_workload (ex_doc ''example''))]\<rparr>))\<rparr>"







definition ex_flags :: Flags where
  "ex_flags = \<lparr>flag_overridesFile = [], flag_overridesFileChanged = False,
               flag_overrideProperty = [], flag_overridePropertyChanged = False,
               flag_image = [], flag_output = ''manifests.yaml''\<rparr>"

section \<open>Match\<close>

text \<open>
  Claim C5. For every descriptor and every resource key, \<open>Match\<close> returns true if and
  only if the resource's type equals the descriptor's type, and the resource's class
  (respectively id) equals the descriptor's class (respectively id) whenever the descriptor
  specifies one. An absent class or id never causes a mismatch: with both absent, the type
  alone decides.
\<close>

theorem Match_exact_or_wildcard:
  "(Match p r \<longleftrightarrow>
      uid_Type r = ResType p \<and>
      (\<forall>c. ResClass p = Some c \<longrightarrow> uid_Class r = c) \<and>
      (\<forall>i. ResId p = Some i \<longrightarrow> uid_Id r = i))
   \<and> (ResClass p = None \<and> ResId p = None \<longrightarrow> Match p r = (uid_Type r = ResType p))"
  by (auto simp: Match_def)

theorem Match_exact_or_wildcard_witness:
  "Match ex_provisioner \<lparr>uid_Type = ''postgres'', uid_Class = ''default'', uid_Id = ''db''\<rparr>
   \<and> \<not> Match ex_provisioner \<lparr>uid_Type = ''postgres'', uid_Class = ''large'', uid_Id = ''db''\<rparr>
   \<and> \<not> Match ex_provisioner \<lparr>uid_Type = ''redis'', uid_Class = ''default'', uid_Id = ''db''\<rparr>"
  using Match_exact_or_wildcard
     [of ex_provisioner "\<lparr>uid_Type = ''postgres'', uid_Class = ''default'', uid_Id = ''db''\<rparr>"]
    Match_exact_or_wildcard
     [of ex_provisioner "\<lparr>uid_Type = ''postgres'', uid_Class = ''large'', uid_Id = ''db''\<rparr>"]
    Match_exact_or_wildcard
     [of ex_provisioner "\<lparr>uid_Type = ''redis'', uid_Class = ''default'', uid_Id = ''db''\<rparr>"]
  by (simp add: ex_provisioner_def)

section \<open>The argument loop\<close>

lemma renderArgs_result:
  "renderArgs R d (pre @ rest) (length pre) rest = Inr out \<Longrightarrow>
     \<exists>rs. out = pre @ rs \<and> list_all2 (\<lambda>arg rendered. R arg d = Inr rendered) rest rs"
proof (induction rest arbitrary: pre)
  case Nil
  then show ?case by simp
next
  case (Cons arg rest)
  from Cons.prems obtain rendered where r: "R arg d = Inr rendered"
    by (auto simp: Let_def split: sum.splits)
  have upd: "(if arg = ''<mode>'' then (pre @ arg # rest)[length pre := ''provision'']
              else pre @ arg # rest)[length pre := rendered]
             = (pre @ [rendered]) @ rest"
    by (simp add: list_update_append)
  from Cons.prems r upd
  have step: "renderArgs R d ((pre @ [rendered]) @ rest) (length (pre @ [rendered])) rest = Inr out"
    by (simp add: Let_def)
  from Cons.IH [OF step] obtain rs where
    "out = (pre @ [rendered]) @ rs" "list_all2 (\<lambda>arg rendered. R arg d = Inr rendered) rest rs"
    by blast
  with r have "out = pre @ (rendered # rs) \<and>
       list_all2 (\<lambda>arg rendered. R arg d = Inr rendered) (arg # rest) (rendered # rs)"
    by simp
  then show ?case by blast
qed

text \<open>
  Claim C2 says that an argument that is exactly the mode token reaches the subprocess as
  the literal \<open>provision\<close> and is never template-expanded. The loop does store
  \<open>provision\<close> at the argument's index, but it then renders the loop variable, which
  still holds the token, and stores the result at the same index. So whenever the loop
  succeeds, the argument at the index of a mode token is the template expansion of the
  token: with a renderer that returns action-free text as it is, that is the token itself.
\<close>

theorem mode_token_is_template_expanded:
  assumes "renderArgs RenderTemplate data args 0 args = Inr out"
    and "i < length args" and "args ! i = ''<mode>''"
  shows "RenderTemplate ''<mode>'' data = Inr (out ! i)"
proof -
  from renderArgs_result [of RenderTemplate data "[]" args out] assms(1)
  have "list_all2 (\<lambda>arg rendered. RenderTemplate arg data = Inr rendered) args out"
    by simp
  from list_all2_nthD [OF this assms(2)] assms(3) show ?thesis by simp
qed

theorem mode_token_is_template_expanded_witness:
  "renderArgs (pe_RenderTemplate ex_prov_env) (templateData ex_input)
      (Args ex_provisioner) 0 (Args ex_provisioner) = Inr [''--mode'', ''<mode>'']
   \<and> pe_RenderTemplate ex_prov_env ''<mode>'' (templateData ex_input) = Inr ''<mode>''
   \<and> ''<mode>'' \<noteq> ''provision''"
proof -
  have run: "renderArgs (pe_RenderTemplate ex_prov_env) (templateData ex_input)
      (Args ex_provisioner) 0 (Args ex_provisioner) = Inr [''--mode'', ''<mode>'']"
    by (simp add: ex_prov_env_def ex_provisioner_def)
  have "pe_RenderTemplate ex_prov_env ''<mode>'' (templateData ex_input)
          = Inr ([''--mode'', ''<mode>''] ! 1)"
    by (rule mode_token_is_template_expanded [OF run]) (simp_all add: ex_provisioner_def)
  with run show ?thesis by simp
qed

section \<open>Binary resolution\<close>

lemma strings_Split_nonempty: "strings_Split s c \<noteq> []"
  by (induction s) (auto split: list.splits)

lemma strings_Split_length: "length (strings_Split s c) = Suc (length (filter (\<lambda>x. x = c) s))"
  by (induction s) (auto split: list.splits simp: strings_Split_nonempty)

lemma strings_Split_many: "1 < length (strings_Split s c) \<longleftrightarrow> c \<in> set s"
  by (simp add: strings_Split_length filter_empty_conv)

lemma filepath_Join_found: "filepath_Clean b = b \<Longrightarrow> filepath_Join (b # strings_Split [] c) = b"
  by (auto simp: filepath_Join_def filepath_Clean_def)

lemma cleanStack_dotdots: "\<not> rooted \<Longrightarrow> list_all (\<lambda>x. x = ''..'') as \<Longrightarrow> cleanStack rooted as"
  by (induction as) auto

lemma cleanStack_suffix: "cleanStack rooted (xs @ ys) \<Longrightarrow> cleanStack rooted ys"
  by (induction xs) (auto simp: cleanStack_dotdots split: if_splits)

lemma cleanStack_elems: "cleanStack rooted xs \<Longrightarrow> e \<in> set xs \<Longrightarrow> e = ''..'' \<or> goodElem e"
  by (induction xs) (auto simp: list_all_iff split: if_splits)

lemma cleanElems_stack:
  "\<forall>e \<in> set es. CHR ''/'' \<notin> set e \<Longrightarrow> cleanStack rooted acc \<Longrightarrow>
     \<exists>acc'. cleanElems rooted acc es = rev acc' \<and> cleanStack rooted acc'"
proof (induction es arbitrary: acc)
  case Nil
  then show ?case by auto
next
  case (Cons e es)
  have step: "\<exists>acc'. cleanElems rooted a es = rev acc' \<and> cleanStack rooted acc'"
    if "cleanStack rooted a" for a
    using Cons.IH [OF _ that] Cons.prems(1) by simp
  show ?case
  proof (cases "e = [] \<or> e = ''.''")
    case True
    with step [OF Cons.prems(2)] show ?thesis by auto
  next
    case False
    note ne = this
    show ?thesis
    proof (cases "e = ''..''")
      case True
      show ?thesis
      proof (cases acc)
        case Nil
        have "cleanStack rooted []" by simp
        moreover have "\<not> rooted \<Longrightarrow> cleanStack rooted [''..'']" by simp
        ultimately show ?thesis using True Nil step by (cases rooted) auto
      next
        case (Cons a as)
        show ?thesis
        proof (cases "a = ''..''")
          case True
          with Cons.prems(2) Cons have nr: "\<not> rooted" and d: "list_all (\<lambda>x. x = ''..'') as"
            by auto
          then have "cleanStack rooted (''..'' # acc)" using Cons True by simp
          from step [OF this] \<open>e = ''..''\<close> Cons True nr show ?thesis by auto
        next
          case False
          with Cons.prems(2) Cons have "cleanStack rooted as" by auto
          from step [OF this] \<open>e = ''..''\<close> Cons False show ?thesis by auto
        qed
      qed
    next
      case False
      with ne Cons.prems have "cleanStack rooted (e # acc)"
        by (simp add: goodElem_def)
      from step [OF this] ne False show ?thesis by auto
    qed
  qed
qed

lemma cleanElems_fixed:
  "cleanStack rooted (rev es @ acc) \<Longrightarrow> cleanElems rooted acc es = rev acc @ es"
proof (induction es arbitrary: acc)
  case Nil
  then show ?case by simp
next
  case (Cons e es)
  from Cons.prems have st: "cleanStack rooted (rev es @ (e # acc))" by simp
  from cleanStack_suffix [OF st] have top: "cleanStack rooted (e # acc)" .
  from Cons.IH [OF st] have ih: "cleanElems rooted (e # acc) es = rev acc @ e # es" by simp
  show ?case
  proof (cases "e = ''..''")
    case True
    with top have nr: "\<not> rooted" and d: "list_all (\<lambda>x. x = ''..'') acc" by auto
    show ?thesis
    proof (cases acc)
      case Nil
      with True nr ih show ?thesis by simp
    next
      case (Cons a as)
      with d have "a = ''..''" by simp
      with True nr ih Cons show ?thesis by simp
    qed
  next
    case False
    with top have "goodElem e" by simp
    with False ih show ?thesis by (simp add: goodElem_def)
  qed
qed

lemma strings_Split_no_sep: "e \<in> set (strings_Split s c) \<Longrightarrow> c \<notin> set e"
  by (induction s arbitrary: e) (auto split: if_splits list.splits)

lemma strings_Split_plain: "c \<notin> set s \<Longrightarrow> strings_Split s c = [s]"
  by (induction s) auto

lemma strings_Split_append: "c \<notin> set p \<Longrightarrow> strings_Split (p @ c # rest) c = p # strings_Split rest c"
  by (induction p) auto

lemma strings_Split_Join:
  "es \<noteq> [] \<Longrightarrow> \<forall>e \<in> set es. CHR ''/'' \<notin> set e \<Longrightarrow>
     strings_Split (strings_Join es) (CHR ''/'') = es"
  by (induction es rule: strings_Join.induct)
     (auto simp: strings_Split_plain strings_Split_append)

lemma hd_strings_Join:
  "es \<noteq> [] \<Longrightarrow> hd es \<noteq> [] \<Longrightarrow> hd (strings_Join es) = hd (hd es)"
  by (induction es rule: strings_Join.induct) auto

lemma strings_Join_empty: "strings_Join es = [] \<Longrightarrow> \<forall>e \<in> set es. e \<noteq> [] \<Longrightarrow> es = []"
  by (induction es rule: strings_Join.induct) auto

lemma filepath_Clean_dot: "filepath_Clean ''.'' = ''.''"
  by (simp add: filepath_Clean_def)

lemma filepath_Clean_nonempty: "filepath_Clean p \<noteq> []"
  by (simp add: filepath_Clean_def Let_def)

lemma filepath_Clean_idem: "filepath_Clean (filepath_Clean p) = filepath_Clean p"
proof (cases "p = []")
  case True
  then show ?thesis by (simp add: filepath_Clean_def)
next
  case False
  define rooted where "rooted = (hd p = CHR ''/'')"
  define es where "es = cleanElems rooted [] (strings_Split p (CHR ''/''))"
  define out where "out = (if rooted then ''/'' else []) @ strings_Join es"
  have cp: "filepath_Clean p = (if out = [] then ''.'' else out)"
    using False by (simp add: filepath_Clean_def Let_def rooted_def es_def out_def)
  from cleanElems_stack [of "strings_Split p (CHR ''/'')" rooted "[]"]
  obtain acc' where acc: "es = rev acc'" "cleanStack rooted acc'"
    by (auto simp: es_def dest: strings_Split_no_sep)
  have el: "e = ''..'' \<or> goodElem e" if "e \<in> set es" for e
    using cleanStack_elems [OF acc(2), of e] that acc(1) by simp
  have nosep: "\<forall>e \<in> set es. CHR ''/'' \<notin> set e"
  proof
    fix e assume "e \<in> set es"
    from el [OF this] show "CHR ''/'' \<notin> set e" by (auto simp: goodElem_def)
  qed
  have nonempty: "\<forall>e \<in> set es. e \<noteq> []"
  proof
    fix e assume "e \<in> set es"
    from el [OF this] show "e \<noteq> []" by (auto simp: goodElem_def)
  qed
  have fixed: "cleanElems rooted [] es = es"
    using cleanElems_fixed [of rooted es "[]"] acc by simp
  show ?thesis
  proof (cases "out = []")
    case True
    with cp show ?thesis by (simp add: filepath_Clean_dot)
  next
    case ne: False
    have r: "(hd out = CHR ''/'') = rooted"
    proof (cases rooted)
      case True
      then show ?thesis by (simp add: out_def)
    next
      case nr: False
      with ne have e: "es \<noteq> []" by (auto simp: out_def)
      then have "hd es \<in> set es" by simp
      with nosep nonempty have "hd es \<noteq> []" "CHR ''/'' \<notin> set (hd es)" by auto
      then have "hd (hd es) \<noteq> CHR ''/''" by (cases "hd es") auto
      with hd_strings_Join [OF e \<open>hd es \<noteq> []\<close>] nr show ?thesis by (simp add: out_def)
    qed
    have c: "cleanElems rooted [] (strings_Split out (CHR ''/'')) = es"
    proof (cases "es = []")
      case True
      with ne have "rooted" by (auto simp: out_def split: if_splits)
      with True show ?thesis by (simp add: out_def)
    next
      case e: False
      show ?thesis
      proof (cases rooted)
        case True
        then have "strings_Split out (CHR ''/'') = [] # es"
          using strings_Split_Join [OF e nosep] by (simp add: out_def)
        with fixed show ?thesis by simp
      next
        case False
        then have "strings_Split out (CHR ''/'') = es"
          using strings_Split_Join [OF e nosep] by (simp add: out_def)
        with fixed show ?thesis by simp
      qed
    qed
    have "filepath_Clean out = out"
      using ne r c by (simp add: filepath_Clean_def Let_def) (simp add: out_def)
    with cp ne show ?thesis by simp
  qed
qed

lemma filepath_Join_clean:
  "filepath_Join elems \<noteq> [] \<Longrightarrow> filepath_Clean (filepath_Join elems) = filepath_Join elems"
  by (auto simp: filepath_Join_def Let_def filepath_Clean_idem split: if_splits)

text \<open>
  Claim C6. For every provisioner URI whose host is none of the empty string, \<open>~\<close>,
  \<open>.\<close> and \<open>..\<close>: when the URI has no path, binary resolution returns the path that
  looking the host up on the executable search path returns, for every clean path the
  lookup finds and so for every path the lookup builds by joining a directory and the
  command name, and it fails when the lookup fails; when the path has a separator, so that
  additional path segments are present, binary resolution returns an error, and
  \<open>Provision\<close> returns it without starting a subprocess.
\<close>

theorem direct_command_reference:
  assumes "pe_url_Parse env (Uri p) = Some parts"
    and "url_Hostname parts \<notin> {[], ''~'', ''.'', ''..''}"
  shows "(url_EscapedPath parts = [] \<and> exec_LookPath (pe_os env) (url_Hostname parts) = Some b
            \<and> filepath_Clean b = b \<longrightarrow>
          decodeBinary (pe_url_Parse env) (pe_os env) (Uri p) = Inr b)
       \<and> (url_EscapedPath parts = [] \<and>
          exec_LookPath (pe_os env) (url_Hostname parts)
            = Some (filepath_Join [dir, url_Hostname parts]) \<longrightarrow>
          decodeBinary (pe_url_Parse env) (pe_os env) (Uri p)
            = Inr (filepath_Join [dir, url_Hostname parts]))
       \<and> (url_EscapedPath parts = [] \<and> exec_LookPath (pe_os env) (url_Hostname parts) = None \<longrightarrow>
          decodeBinary (pe_url_Parse env) (pe_os env) (Uri p)
            = Inl (LookPathFailed (url_Hostname parts)))
       \<and> (CHR ''/'' \<in> set (url_EscapedPath parts) \<longrightarrow>
          decodeBinary (pe_url_Parse env) (pe_os env) (Uri p) = Inl DirectCommandExtraPathParts
          \<and> Provision env p input = ([], Inl DirectCommandExtraPathParts))"
proof -
  have extra: "decodeBinary (pe_url_Parse env) (pe_os env) (Uri p) = Inl DirectCommandExtraPathParts"
    if "CHR ''/'' \<in> set (url_EscapedPath parts)"
    using assms that strings_Split_many [of "url_EscapedPath parts" "CHR ''/''"]
    by (simp add: decodeBinary_def Let_def)
  have found: "decodeBinary (pe_url_Parse env) (pe_os env) (Uri p) = Inr c"
    if "url_EscapedPath parts = []" "exec_LookPath (pe_os env) (url_Hostname parts) = Some c"
       "filepath_Clean c = c" for c
    using assms that filepath_Join_found [of c "CHR ''/''"]
    by (simp add: decodeBinary_def Let_def)
  have "filepath_Join [dir, url_Hostname parts] \<noteq> []"
    using assms(2) by (simp add: filepath_Join_def filepath_Clean_nonempty)
  then have joined: "filepath_Clean (filepath_Join [dir, url_Hostname parts])
      = filepath_Join [dir, url_Hostname parts]"
    by (rule filepath_Join_clean)
  have missing: "decodeBinary (pe_url_Parse env) (pe_os env) (Uri p)
            = Inl (LookPathFailed (url_Hostname parts))"
    if "url_EscapedPath parts = []" "exec_LookPath (pe_os env) (url_Hostname parts) = None"
    using assms that by (simp add: decodeBinary_def Let_def)
  have "Provision env p input = ([], Inl DirectCommandExtraPathParts)"
    if "CHR ''/'' \<in> set (url_EscapedPath parts)"
    using extra [OF that] by (simp add: Provision_def Let_def)
  with extra found [of b] found [of "filepath_Join [dir, url_Hostname parts]"] joined missing
  show ?thesis by blast
qed

theorem direct_command_reference_witness:
  "decodeBinary (pe_url_Parse ex_prov_env) (pe_os ex_prov_env) (Uri ex_provisioner)
     = Inr ''/usr/bin/python''
   \<and> filepath_Join [''/usr/bin'', ''python''] = ''/usr/bin/python''
   \<and> Provision ex_prov_env (ex_provisioner\<lparr>ProvisionerUri := ''cmd://python/tools/run''\<rparr>) ex_input
     = ([], Inl DirectCommandExtraPathParts)
   \<and> decodeBinary (pe_url_Parse ex_prov_env) ((pe_os ex_prov_env)\<lparr>exec_LookPath := (\<lambda>file. None)\<rparr>)
        (Uri ex_provisioner) = Inl (LookPathFailed ''python'')"
proof -
  let ?parts = "\<lparr>url_User = None, url_Hostname = ''python'', url_Port = [],
              url_EscapedPath = [], url_Query = []\<rparr>"
  let ?sub = "\<lparr>url_User = None, url_Hostname = ''python'', url_Port = [],
              url_EscapedPath = ''/tools/run'', url_Query = []\<rparr>"
  let ?q = "ex_provisioner\<lparr>ProvisionerUri := ''cmd://python/tools/run''\<rparr>"
  let ?env' = "ex_prov_env\<lparr>pe_os := (pe_os ex_prov_env)\<lparr>exec_LookPath := (\<lambda>file. None)\<rparr>\<rparr>"
  have p1: "pe_url_Parse ex_prov_env (Uri ex_provisioner) = Some ?parts"
    by (simp add: ex_prov_env_def ex_url_Parse_def Uri_def ex_provisioner_def)
  have p2: "pe_url_Parse ex_prov_env (Uri ?q) = Some ?sub"
    by (simp add: ex_prov_env_def ex_url_Parse_def Uri_def ex_provisioner_def)
  have p3: "pe_url_Parse ?env' (Uri ex_provisioner) = Some ?parts"
    by (simp add: ex_prov_env_def ex_url_Parse_def Uri_def ex_provisioner_def)
  have h1: "url_Hostname ?parts \<notin> {[], ''~'', ''.'', ''..''}" by simp
  have h2: "url_Hostname ?sub \<notin> {[], ''~'', ''.'', ''..''}" by simp
  have j: "filepath_Join [''/usr/bin'', ''python''] = ''/usr/bin/python''"
    by code_simp
  have l: "url_EscapedPath ?parts = [] \<and>
           exec_LookPath (pe_os ex_prov_env) (url_Hostname ?parts)
             = Some (filepath_Join [''/usr/bin'', url_Hostname ?parts])"
    by (simp add: ex_prov_env_def ex_os_def j)
  have n: "url_EscapedPath ?parts = [] \<and> exec_LookPath (pe_os ?env') (url_Hostname ?parts) = None"
    by simp
  have x: "CHR ''/'' \<in> set (url_EscapedPath ?sub)"
    by simp
  note t1 = direct_command_reference [OF p1 h1, of "[]" "''/usr/bin''" ex_input]
  note t2 = direct_command_reference [OF p2 h2, of "[]" "[]" ex_input]
  note t3 = direct_command_reference [OF p3 h1, of "[]" "[]" ex_input]
  from t1 [THEN conjunct2, THEN conjunct1, rule_format, OF l]
  have a: "decodeBinary (pe_url_Parse ex_prov_env) (pe_os ex_prov_env) (Uri ex_provisioner)
     = Inr ''/usr/bin/python''"
    by (simp add: j)
  from t2 [THEN conjunct2, THEN conjunct2, THEN conjunct2, rule_format, OF x]
  have b: "Provision ex_prov_env ?q ex_input = ([], Inl DirectCommandExtraPathParts)"
    by (rule conjunct2)
  from t3 [THEN conjunct2, THEN conjunct2, THEN conjunct1, rule_format, OF n]
  have c: "decodeBinary (pe_url_Parse ex_prov_env) ((pe_os ex_prov_env)\<lparr>exec_LookPath := (\<lambda>file. None)\<rparr>)
        (Uri ex_provisioner) = Inl (LookPathFailed ''python'')"
    by simp
  from a j b c show ?thesis by (intro conjI)
qed

section \<open>Parse\<close>

lemma decodeField_absent: "map_of raw key = None \<Longrightarrow> decodeField raw key dec zero = Some zero"
  by (simp add: decodeField_def)

lemma decoded_uri:
  "yaml_DecodeProvisioner raw = Some p \<Longrightarrow>
     decodeField raw ''uri'' decodeString [] = Some (ProvisionerUri p)"
  by (auto simp: yaml_DecodeProvisioner_def split: if_splits option.splits)

lemma decoded_type:
  "yaml_DecodeProvisioner raw = Some p \<Longrightarrow>
     decodeField raw ''type'' decodeString [] = Some (ResType p)"
  by (auto simp: yaml_DecodeProvisioner_def split: if_splits option.splits)

lemma decoded_known:
  "yaml_DecodeProvisioner raw = Some p \<Longrightarrow> \<not> list_ex (\<lambda>k. k \<notin> set knownFields) (map fst raw)"
  by (auto simp: yaml_DecodeProvisioner_def split: if_splits)

lemma Parse_Inr_D:
  assumes "Parse url_Parse raw = Inr p"
  shows "yaml_DecodeProvisioner raw = Some p" "ProvisionerUri p \<noteq> []" "ResType p \<noteq> []"
    "\<exists>parts. url_Parse (ProvisionerUri p) = Some parts \<and> url_User parts = None \<and>
        url_Query parts = [] \<and> url_Port parts = []"
  using assms by (auto simp: Parse_def split: option.splits if_splits)

lemma ex_raw_decodes: "yaml_DecodeProvisioner ex_raw = Some ex_provisioner"
  by (simp add: yaml_DecodeProvisioner_def ex_raw_def knownFields_def decodeField_def
      ex_provisioner_def)

lemma ex_raw_parses: "Parse ex_url_Parse ex_raw = Inr ex_provisioner"
  by (simp add: Parse_def ex_raw_decodes) (simp add: ex_provisioner_def ex_url_Parse_def)

text \<open>
  Claim C7. \<open>Parse\<close> returns an error for every document that has an unknown field,
  or lacks the \<open>uri\<close> field, or lacks the \<open>type\<close> field, or whose \<open>uri\<close> parses to
  a URL with user-info, a query parameter or a port. It succeeds only on documents with
  none of these: every key is a known field, \<open>uri\<close> and \<open>type\<close> are non-empty, and the
  \<open>uri\<close> parses to a URL without user-info, query parameters and port. \<open>Parse\<close> starts
  no subprocess: it is a function of the document and the URL parser alone.
\<close>

theorem Parse_rejects_malformed_descriptor:
  "(list_ex (\<lambda>k. k \<notin> set knownFields) (map fst raw)
      \<or> map_of raw ''uri'' = None
      \<or> map_of raw ''type'' = None
      \<or> (\<exists>u parts. map_of raw ''uri'' = Some (YScalar u) \<and> url_Parse u = Some parts \<and>
            (url_User parts \<noteq> None \<or> url_Query parts \<noteq> [] \<or> url_Port parts \<noteq> []))
    \<longrightarrow> (\<exists>err. Parse url_Parse raw = Inl err))
   \<and> (Parse url_Parse raw = Inr p \<longrightarrow>
         set (map fst raw) \<subseteq> set knownFields \<and> ProvisionerUri p \<noteq> [] \<and> ResType p \<noteq> [] \<and>
         (\<exists>parts. url_Parse (ProvisionerUri p) = Some parts \<and> url_User parts = None \<and>
            url_Query parts = [] \<and> url_Port parts = []))"
proof (intro conjI impI)
  assume bad: "list_ex (\<lambda>k. k \<notin> set knownFields) (map fst raw)
      \<or> map_of raw ''uri'' = None
      \<or> map_of raw ''type'' = None
      \<or> (\<exists>u parts. map_of raw ''uri'' = Some (YScalar u) \<and> url_Parse u = Some parts \<and>
            (url_User parts \<noteq> None \<or> url_Query parts \<noteq> [] \<or> url_Port parts \<noteq> []))"
  show "\<exists>err. Parse url_Parse raw = Inl err"
  proof (cases "Parse url_Parse raw")
    case (Inl err)
    then show ?thesis by blast
  next
    case (Inr q)
    note d = Parse_Inr_D [OF Inr]
    from decoded_known [OF d(1)] have k: "\<not> list_ex (\<lambda>k. k \<notin> set knownFields) (map fst raw)" .
    from decoded_uri [OF d(1)] d(2) have u: "map_of raw ''uri'' \<noteq> None"
      by (auto simp: decodeField_def split: option.splits)
    from decoded_type [OF d(1)] d(3) have t: "map_of raw ''type'' \<noteq> None"
      by (auto simp: decodeField_def split: option.splits)
    have "\<not> (\<exists>u parts. map_of raw ''uri'' = Some (YScalar u) \<and> url_Parse u = Some parts \<and>
            (url_User parts \<noteq> None \<or> url_Query parts \<noteq> [] \<or> url_Port parts \<noteq> []))"
    proof
      assume "\<exists>u parts. map_of raw ''uri'' = Some (YScalar u) \<and> url_Parse u = Some parts \<and>
            (url_User parts \<noteq> None \<or> url_Query parts \<noteq> [] \<or> url_Port parts \<noteq> [])"
      then obtain u parts where m: "map_of raw ''uri'' = Some (YScalar u)"
        and pu: "url_Parse u = Some parts"
        and off: "url_User parts \<noteq> None \<or> url_Query parts \<noteq> [] \<or> url_Port parts \<noteq> []"
        by blast
      from decoded_uri [OF d(1)] m have "ProvisionerUri q = u" by (simp add: decodeField_def)
      with d(4) pu off show False by auto
    qed
    with bad k u t show ?thesis by blast
  qed
next
  assume ok: "Parse url_Parse raw = Inr p"
  note d = Parse_Inr_D [OF ok]
  from decoded_known [OF d(1)] show "set (map fst raw) \<subseteq> set knownFields"
    by (auto simp: list_ex_iff)
  from d show "ProvisionerUri p \<noteq> []" "ResType p \<noteq> []"
    "\<exists>parts. url_Parse (ProvisionerUri p) = Some parts \<and> url_User parts = None \<and>
        url_Query parts = [] \<and> url_Port parts = []"
    by blast+
qed

theorem Parse_rejects_malformed_descriptor_witness:
  "Parse ex_url_Parse ex_raw = Inr ex_provisioner
   \<and> (\<exists>err. Parse ex_url_Parse ((''shell'', YScalar ''sh'') # ex_raw) = Inl err)
   \<and> (\<exists>err. Parse ex_url_Parse [(''type'', YScalar ''postgres'')] = Inl err)
   \<and> (\<exists>err. Parse ex_url_Parse [(''uri'', YScalar ''cmd://python'')] = Inl err)
   \<and> (\<exists>err. Parse ex_url_Parse [(''uri'', YScalar ''cmd://dev@python''),
                                   (''type'', YScalar ''postgres'')] = Inl err)"
proof -
  have a: "\<exists>err. Parse ex_url_Parse ((''shell'', YScalar ''sh'') # ex_raw) = Inl err"
    using Parse_rejects_malformed_descriptor
      [of "(''shell'', YScalar ''sh'') # ex_raw" ex_url_Parse ex_provisioner]
    by (simp add: knownFields_def)
  have b: "\<exists>err. Parse ex_url_Parse [(''type'', YScalar ''postgres'')] = Inl err"
    using Parse_rejects_malformed_descriptor
      [of "[(''type'', YScalar ''postgres'')]" ex_url_Parse ex_provisioner]
    by simp
  have c: "\<exists>err. Parse ex_url_Parse [(''uri'', YScalar ''cmd://python'')] = Inl err"
    using Parse_rejects_malformed_descriptor
      [of "[(''uri'', YScalar ''cmd://python'')]" ex_url_Parse ex_provisioner]
    by simp
  have "ex_url_Parse ''cmd://dev@python'' =
          Some \<lparr>url_User = Some ''dev'', url_Hostname = ''python'', url_Port = [],
              url_EscapedPath = [], url_Query = []\<rparr>"
    by (simp add: ex_url_Parse_def)
  then have d: "\<exists>err. Parse ex_url_Parse [(''uri'', YScalar ''cmd://dev@python''),
                                   (''type'', YScalar ''postgres'')] = Inl err"
    using Parse_rejects_malformed_descriptor
      [of "[(''uri'', YScalar ''cmd://dev@python''), (''type'', YScalar ''postgres'')]"
          ex_url_Parse ex_provisioner]
    by simp
  from ex_raw_parses a b c d show ?thesis by blast
qed

text \<open>
  Claim C10. \<open>decodeBinary\<close> discards the error of \<open>url.Parse\<close> and calls methods on
  the URL it returns. For every descriptor that \<open>Parse\<close> accepts, parsing its URI again
  yields a URL, so \<open>decodeBinary\<close> does not dereference a nil URL: it returns a path or
  an error of its own.
\<close>

theorem Parse_accepted_uri_decodes_without_panic:
  assumes "Parse url_Parse raw = Inr p"
  shows "(\<exists>parts. url_Parse (Uri p) = Some parts) \<and>
         decodeBinary url_Parse os (Uri p) \<noteq> Inl NilPointerDereference"
proof -
  from assms obtain parts where "url_Parse (ProvisionerUri p) = Some parts"
    by (auto simp: Parse_def split: option.splits if_splits)
  then show ?thesis
    by (auto simp: decodeBinary_def Uri_def Let_def split: option.splits)
qed

theorem Parse_accepted_uri_decodes_without_panic_witness:
  "Parse ex_url_Parse ex_raw = Inr ex_provisioner
   \<and> decodeBinary ex_url_Parse ex_os (Uri ex_provisioner) \<noteq> Inl NilPointerDereference
   \<and> decodeBinary ex_url_Parse ex_os ''::'' = Inl NilPointerDereference"
  using Parse_accepted_uri_decodes_without_panic [OF ex_raw_parses, of ex_os] ex_raw_parses
  by (simp add: decodeBinary_def ex_url_Parse_def)

section \<open>Strict decoding of the provisioner's output\<close>

lemma saveError_Some: "saveError saved err \<noteq> None"
  by (simp add: saveError_def split: option.splits)

lemma decodeMembers_keeps_error:
  "saved \<noteq> None \<Longrightarrow> fst (decodeMembers foldName fs kvs saved out) \<noteq> None"
  by (induction kvs arbitrary: saved out)
     (auto split: option.splits prod.splits simp: saveError_def)

lemma decodeMembers_unknown:
  "(key, v) \<in> set kvs \<Longrightarrow> findField foldName fs key = None \<Longrightarrow>
     fst (decodeMembers foldName fs kvs saved out) \<noteq> None"
proof (induction kvs arbitrary: saved out)
  case Nil
  then show ?case by simp
next
  case (Cons kv kvs)
  obtain k w where kv: "kv = (k, w)" by (cases kv)
  show ?case
  proof (cases "kv = (key, v)")
    case True
    with Cons.prems(2) kv show ?thesis
      by (simp add: decodeMembers_keeps_error saveError_Some)
  next
    case False
    with Cons.prems have "(key, v) \<in> set kvs" by simp
    from Cons.IH [OF this Cons.prems(2)] kv show ?thesis
      by (auto split: option.splits prod.splits)
  qed
qed

lemma findField_None:
  "(\<forall>f \<in> set fs. fst f \<noteq> key \<and> foldName (fst f) \<noteq> foldName key) \<Longrightarrow>
     findField foldName fs key = None"
proof -
  assume a: "\<forall>f \<in> set fs. fst f \<noteq> key \<and> foldName (fst f) \<noteq> foldName key"
  then have "find (\<lambda>f. fst f = key) fs = None"
    and "find (\<lambda>f. foldName (fst f) = foldName key) fs = None"
    by (force simp: find_None_iff)+
  then show ?thesis by (simp add: findField_def)
qed

lemma decodeOutput_unknown:
  assumes "(key, v) \<in> set kvs" "findField foldName fs key = None"
  shows "\<exists>err. decodeOutput foldName fs (Some (JObject kvs)) = Inl err"
proof -
  from decodeMembers_unknown [OF assms, of None "[]"]
  obtain err out where "decodeMembers foldName fs kvs None [] = (Some err, out)"
    by (cases "decodeMembers foldName fs kvs None []") auto
  then show ?thesis by (simp add: decodeOutput_def)
qed

text \<open>
  Claim C3, as the code has it. Decoding the subprocess's standard output rejects unknown
  fields, where the JSON decoder decides what is unknown: an object key selects the field
  of that exact name, or else a field whose name equals the key after case folding.
  Whenever the subprocess has run and exited with success and its output is a JSON object
  with a member whose key matches no field of the whitelisted \<open>ProvisionOutput\<close>
  schema, neither by its exact name nor after case folding, whatever the other members
  are, \<open>Provision\<close> returns the decode error, which is not the error of a failed
  subprocess, and returns no output. A key that differs from a whitelisted name only in
  the case of its letters is accepted, as the example after the theorem shows.
\<close>

theorem Provision_rejects_unknown_output_field:
  assumes "decodeBinary (pe_url_Parse env) (pe_os env) (Uri p) = Inr bin"
    and "pe_json_Marshal env input = Some rawInput"
    and "renderArgs (pe_RenderTemplate env) (templateData input) (Args p) 0 (Args p) = Inr args"
    and "pe_cmd_Run env bin args rawInput = Some stdout"
    and "pe_json_Read env stdout = Some (JObject kvs)"
    and "(key, v) \<in> set kvs"
    and "\<forall>f \<in> set (pe_outputFields env).
           fst f \<noteq> key \<and> pe_foldName env (fst f) \<noteq> pe_foldName env key"
  shows "\<exists>err. snd (Provision env p input) = Inl (DecodeOutputFailed err)
           \<and> DecodeOutputFailed err \<noteq> ExecFailed"
proof -
  from decodeOutput_unknown [OF assms(6) findField_None [OF assms(7)]]
  obtain err where "decodeOutput (pe_foldName env) (pe_outputFields env) (Some (JObject kvs)) = Inl err"
    by blast
  with assms(1-5) have "snd (Provision env p input) = Inl (DecodeOutputFailed err)"
    by (simp add: Provision_def Let_def)
  then show ?thesis by simp
qed

theorem case_folded_output_field_counterexample:
  "pe_json_Read ex_folding_env ''stdout''
     = Some (JObject [(''resource_outputs'', JObject []),
                      (''Shared_State'', JObject [(''region'', JString ''eu'')])])
   \<and> ''Shared_State'' \<notin> set (map fst (pe_outputFields ex_folding_env))
   \<and> Provision ex_folding_env ex_provisioner ex_input
     = ([Spawn ''/usr/bin/python'' [''--mode'', ''<mode>''] ''{}''],
        Inr [(''shared_state'', JObject [(''region'', JString ''eu'')]),
             (''resource_outputs'', JObject [])])"
  by code_simp

theorem Provision_rejects_unknown_output_field_witness:
  "(\<exists>err. snd (Provision ex_prov_env ex_provisioner ex_input) = Inl (DecodeOutputFailed err))
   \<and> fst (Provision ex_prov_env ex_provisioner ex_input)
       = [Spawn ''/usr/bin/python'' [''--mode'', ''<mode>''] ''{}'']"
proof -
  have bin: "decodeBinary (pe_url_Parse ex_prov_env) (pe_os ex_prov_env) (Uri ex_provisioner)
     = Inr ''/usr/bin/python''"
    by (simp add: decodeBinary_def ex_prov_env_def ex_url_Parse_def Uri_def ex_provisioner_def
        ex_os_def filepath_Join_def filepath_Clean_def)
  have inp: "pe_json_Marshal ex_prov_env ex_input = Some ''{}''"
    by (simp add: ex_prov_env_def)
  have args: "renderArgs (pe_RenderTemplate ex_prov_env) (templateData ex_input)
      (Args ex_provisioner) 0 (Args ex_provisioner) = Inr [''--mode'', ''<mode>'']"
    by (simp add: ex_prov_env_def ex_provisioner_def)
  have run: "pe_cmd_Run ex_prov_env ''/usr/bin/python'' [''--mode'', ''<mode>''] ''{}'' = Some ''stdout''"
    by (simp add: ex_prov_env_def)
  have doc: "pe_json_Read ex_prov_env ''stdout''
      = Some (JObject [(''resource_outputs'', JObject []), (''comment'', JBool True)])"
    by (simp add: ex_prov_env_def)
  have mem: "(''comment'', JBool True)
      \<in> set [(''resource_outputs'', JObject []), (''comment'', JBool True)]"
    by simp
  have unk: "\<forall>f \<in> set (pe_outputFields ex_prov_env).
           fst f \<noteq> ''comment'' \<and> pe_foldName ex_prov_env (fst f) \<noteq> pe_foldName ex_prov_env ''comment''"
    by code_simp
  from Provision_rejects_unknown_output_field [OF bin inp args run doc mem unk]
  have "\<exists>err. snd (Provision ex_prov_env ex_provisioner ex_input) = Inl (DecodeOutputFailed err)"
    by blast
  moreover have "fst (Provision ex_prov_env ex_provisioner ex_input)
       = [Spawn ''/usr/bin/python'' [''--mode'', ''<mode>''] ''{}'']"
    using bin inp args run by (simp add: Provision_def Let_def)
  ultimately show ?thesis by blast
qed

section \<open>Stages\<close>

lemma andThen_Inl [simp]: "andThen (t, Inl err) f = (t, Inl err)"
  by (simp add: andThen_def)

lemma andThen_Inr [simp]: "andThen (t, Inr x) f = (t @ fst (f x), snd (f x))"
  by (simp add: andThen_def split: prod.splits)

lemma fst_andThen:
  "fst (andThen m f) = fst m @ (case snd m of Inl err \<Rightarrow> [] | Inr x \<Rightarrow> fst (f x))"
  by (cases m; cases "snd m") auto

lemma snd_andThen:
  "snd (andThen m f) = (case snd m of Inl err \<Rightarrow> Inl err | Inr x \<Rightarrow> snd (f x))"
  by (cases m; cases "snd m") auto

lemma fst_ok [simp]: "fst (ok x) = []"
  by (simp add: ok_def)

lemma snd_ok [simp]: "snd (ok x) = Inr x"
  by (simp add: ok_def)

lemma fst_fail [simp]: "fst (fail e) = []"
  by (simp add: fail_def)

lemma snd_fail [simp]: "snd (fail e) = Inl e"
  by (simp add: fail_def)

lemma fst_call [simp]: "fst (call ev r e) = [ev]"
  by (simp add: call_def)

lemma snd_call [simp]: "snd (call ev r e) = (case r of None \<Rightarrow> Inl e | Some x \<Rightarrow> Inr x)"
  by (simp add: call_def)

lemma fst_deferring [simp]: "fst (deferring ev m) = fst m @ [ev]"
  by (simp add: deferring_def split: prod.splits)

lemma snd_deferring [simp]: "snd (deferring ev m) = snd m"
  by (simp add: deferring_def split: prod.splits)

lemma list_all_andThen:
  "list_all Q (fst m) \<Longrightarrow> (\<And>x. snd m = Inr x \<Longrightarrow> list_all Q (fst (f x))) \<Longrightarrow>
     list_all Q (fst (andThen m f))"
  by (auto simp: fst_andThen split: sum.splits)

section \<open>Ingestion\<close>

lemma fst_readScoreFile: "fst (readScoreFile env arg) = [ReadFile arg]"
  by (simp add: readScoreFile_def fst_andThen split: sum.splits option.splits)

lemma overrideFile_events:
  "list_all isIngestEvent (fst (parseAndApplyOverrideFile env entry spec))"
  unfolding parseAndApplyOverrideFile_def
  by (rule list_all_andThen) (auto split: option.splits)

lemma fst_overrideFile: "fst (parseAndApplyOverrideFile env entry spec) = [ReadFile entry]"
  by (simp add: parseAndApplyOverrideFile_def fst_andThen split: sum.splits option.splits)

lemma fst_applyOverrides:
  "fst (applyOverrides env flags doc) =
     (if flag_overridesFile flags \<noteq> [] then [ReadFile (flag_overridesFile flags)] else [])"
  by (simp add: applyOverrides_def fst_andThen fst_overrideFile split: sum.splits)

lemma fst_ingestFile:
  "fst (ingestFile env flags state arg) =
     ReadFile arg #
     (case snd (readScoreFile env arg) of
        Inl err \<Rightarrow> []
      | Inr doc \<Rightarrow>
          fst (applyOverrides env flags doc) @
          (case snd (applyOverrides env flags doc) of
             Inl err \<Rightarrow> []
           | Inr patched \<Rightarrow>
               (case decodeWorkload env flags arg patched of
                  Inl err \<Rightarrow> []
                | Inr workload \<Rightarrow> [WithWorkloadCall arg])))"
  by (simp add: ingestFile_def fst_andThen fst_readScoreFile split: sum.splits)

lemma snd_ingestFile_Inr:
  "snd (ingestFile env flags state arg) = Inr state' \<Longrightarrow>
     \<exists>doc patched workload.
       snd (readScoreFile env arg) = Inr doc \<and> snd (applyOverrides env flags doc) = Inr patched \<and>
       decodeWorkload env flags arg patched = Inr workload \<and>
       WithWorkload env state workload arg = Some state'"
  by (auto simp: ingestFile_def snd_andThen split: sum.splits option.splits)

lemma mergeCalls_append: "mergeCalls (a @ b) = mergeCalls a @ mergeCalls b"
  by (induction a rule: mergeCalls.induct) simp_all

lemma mergeCalls_applyOverrides: "mergeCalls (fst (applyOverrides env flags doc)) = []"
  by (simp add: fst_applyOverrides)

lemma mergeCalls_ingestFile:
  "mergeCalls (fst (ingestFile env flags state arg)) = [] \<or>
   mergeCalls (fst (ingestFile env flags state arg)) = [arg]"
  by (simp add: fst_ingestFile mergeCalls_append mergeCalls_applyOverrides split: sum.splits)

lemma mergeCalls_ingestFile_Inr:
  "snd (ingestFile env flags state arg) = Inr state' \<Longrightarrow>
     mergeCalls (fst (ingestFile env flags state arg)) = [arg]"
  by (drule snd_ingestFile_Inr)
     (auto simp: fst_ingestFile mergeCalls_append mergeCalls_applyOverrides)

lemma mergeCalls_ingestFiles:
  "\<exists>rest. args = mergeCalls (fst (ingestFiles env flags state args)) @ rest \<and>
     (\<forall>state'. snd (ingestFiles env flags state args) = Inr state' \<longrightarrow> rest = [])"
proof (induction args arbitrary: state)
  case Nil
  then show ?case by simp
next
  case (Cons arg args)
  show ?case
  proof (cases "snd (ingestFile env flags state arg)")
    case (Inl err)
    with mergeCalls_ingestFile [of env flags state arg] show ?thesis
      by (auto simp: fst_andThen snd_andThen)
  next
    case (Inr state1)
    from Cons.IH [of state1] obtain rest where
      r: "args = mergeCalls (fst (ingestFiles env flags state1 args)) @ rest"
        "\<forall>state'. snd (ingestFiles env flags state1 args) = Inr state' \<longrightarrow> rest = []"
      by blast
    have "arg # args = mergeCalls (fst (ingestFiles env flags state (arg # args))) @ rest"
      using Inr mergeCalls_ingestFile_Inr [OF Inr] r(1)
      by (simp add: fst_andThen mergeCalls_append)
    moreover have "\<forall>state'. snd (ingestFiles env flags state (arg # args)) = Inr state' \<longrightarrow> rest = []"
      using Inr r(2) by (simp add: snd_andThen)
    ultimately show ?thesis by blast
  qed
qed

lemma fst_loadState: "fst (loadState env) = [ReadFile stateFile]"
  by (simp add: loadState_def fst_andThen split: sum.splits option.splits)

lemma mergeCalls_mergedState:
  "\<exists>rest. sort args = mergeCalls (fst (mergedState env flags args)) @ rest \<and>
     (\<forall>state'. snd (mergedState env flags args) = Inr state' \<longrightarrow> rest = [])"
proof (cases "snd (loadState env)")
  case (Inl err)
  then show ?thesis
    by (simp add: mergedState_def fst_andThen snd_andThen fst_loadState)
next
  case (Inr state)
  show ?thesis
  proof (cases "length args \<noteq> 1 \<and> (flag_overridesFileChanged flags \<or> flag_overridePropertyChanged flags)")
    case True
    with Inr show ?thesis
      by (simp add: mergedState_def fst_andThen snd_andThen fst_loadState)
  next
    case False
    with Inr mergeCalls_ingestFiles [of "sort args" env flags state] show ?thesis
      by (simp add: mergedState_def fst_andThen snd_andThen fst_loadState mergeCalls_append)
  qed
qed

lemma sort_cong_mset: "mset (xs::string list) = mset ys \<Longrightarrow> sort xs = sort ys"
  by (rule properties_for_sort) simp_all

lemma snd_ingestFile:
  "snd (ingestFile env flags state arg) =
     (case fileWorkload env flags arg of
        Inl err \<Rightarrow> Inl err
      | Inr workload \<Rightarrow>
          (case WithWorkload env state workload arg of
             None \<Rightarrow> Inl (AddWorkloadFailed arg)
           | Some state' \<Rightarrow> Inr state'))"
  by (simp add: ingestFile_def fileWorkload_def snd_andThen split: sum.splits)

lemma ingestFiles_merged:
  "snd (ingestFiles env flags state args) = Inr merged \<longleftrightarrow>
     (\<exists>ws. list_all2 (\<lambda>arg w. fileWorkload env flags arg = Inr w) args ws \<and>
           mergeInOrder env state (zip args ws) = Some merged)"
proof (induction args arbitrary: state)
  case Nil
  then show ?case by auto
next
  case (Cons arg args)
  show ?case
  proof
    assume a: "snd (ingestFiles env flags state (arg # args)) = Inr merged"
    then obtain state1 where s1: "snd (ingestFile env flags state arg) = Inr state1"
      and r: "snd (ingestFiles env flags state1 args) = Inr merged"
      by (auto simp: snd_andThen split: sum.splits)
    from s1 obtain w where w: "fileWorkload env flags arg = Inr w"
      and m: "WithWorkload env state w arg = Some state1"
      by (auto simp: snd_ingestFile split: sum.splits option.splits)
    from r Cons.IH [of state1] obtain ws where
      ws: "list_all2 (\<lambda>arg w. fileWorkload env flags arg = Inr w) args ws"
        "mergeInOrder env state1 (zip args ws) = Some merged"
      by blast
    from w m ws have "list_all2 (\<lambda>arg w. fileWorkload env flags arg = Inr w) (arg # args) (w # ws)
        \<and> mergeInOrder env state (zip (arg # args) (w # ws)) = Some merged"
      by simp
    then show "\<exists>ws. list_all2 (\<lambda>arg w. fileWorkload env flags arg = Inr w) (arg # args) ws \<and>
           mergeInOrder env state (zip (arg # args) ws) = Some merged"
      by blast
  next
    assume "\<exists>ws. list_all2 (\<lambda>arg w. fileWorkload env flags arg = Inr w) (arg # args) ws \<and>
           mergeInOrder env state (zip (arg # args) ws) = Some merged"
    then obtain ws0 where a: "list_all2 (\<lambda>arg w. fileWorkload env flags arg = Inr w) (arg # args) ws0"
      and b: "mergeInOrder env state (zip (arg # args) ws0) = Some merged"
      by blast
    from a obtain w ws where c: "ws0 = w # ws" "fileWorkload env flags arg = Inr w"
      "list_all2 (\<lambda>arg w. fileWorkload env flags arg = Inr w) args ws"
      by (auto simp: list_all2_Cons1)
    from b c(1) obtain state1 where m: "WithWorkload env state w arg = Some state1"
      and r: "mergeInOrder env state1 (zip args ws) = Some merged"
      by (auto split: option.splits)
    from c(3) r Cons.IH [of state1] have "snd (ingestFiles env flags state1 args) = Inr merged"
      by blast
    with c(2) m show "snd (ingestFiles env flags state (arg # args)) = Inr merged"
      by (simp add: snd_andThen snd_ingestFile)
  qed
qed

lemma mergedState_merged:
  "snd (mergedState env flags args) = Inr merged \<longleftrightarrow>
     (\<exists>loaded ws.
        snd (loadState env) = Inr loaded \<and>
        \<not> (length args \<noteq> 1 \<and> (flag_overridesFileChanged flags \<or> flag_overridePropertyChanged flags)) \<and>
        list_all2 (\<lambda>arg w. fileWorkload env flags arg = Inr w) (sort args) ws \<and>
        mergeInOrder env loaded (zip (sort args) ws) = Some merged)"
proof (cases "snd (loadState env)")
  case (Inl err)
  then show ?thesis by (simp add: mergedState_def snd_andThen)
next
  case (Inr loaded)
  show ?thesis
  proof (cases "length args \<noteq> 1 \<and> (flag_overridesFileChanged flags \<or> flag_overridePropertyChanged flags)")
    case True
    with Inr show ?thesis by (simp add: mergedState_def snd_andThen)
  next
    case False
    with Inr have "snd (mergedState env flags args) = snd (ingestFiles env flags loaded (sort args))"
      by (auto simp: mergedState_def snd_andThen)
    with Inr False ingestFiles_merged [of env flags loaded "sort args" merged]
    show ?thesis by simp
  qed
qed

text \<open>
  Claim C8. For every list of input score files, \<open>generate\<close> merges the files into
  the project state in lexicographically sorted path order. The files handed to
  \<open>WithWorkload\<close> are, in order, an initial part of the sorted arguments, and all of
  them when the merge succeeds; and the merge succeeds with a state exactly when the state
  file loads, the flags are admissible, every file yields a workload, and merging these
  workloads into the loaded state one after the other, in the sorted order of their
  paths, gives that state. So the merged state, and the whole run, is the same for every
  permutation of the arguments: \<open>b.score.yaml\<close> and \<open>a.score.yaml\<close> in this order
  still put the workload of \<open>a\<close> before that of \<open>b\<close>.
\<close>

theorem generate_merges_in_sorted_order:
  assumes "mset args' = mset args"
  shows "generate env flags args' = generate env flags args
       \<and> mergedState env flags args' = mergedState env flags args
       \<and> (\<exists>rest. sort args = mergeCalls (fst (mergedState env flags args')) @ rest)
       \<and> (\<forall>state. snd (mergedState env flags args') = Inr state \<longrightarrow>
             mergeCalls (fst (mergedState env flags args')) = sort args)
       \<and> (\<forall>merged. snd (mergedState env flags args') = Inr merged \<longleftrightarrow>
             (\<exists>loaded ws.
                snd (loadState env) = Inr loaded \<and>
                \<not> (length args \<noteq> 1 \<and>
                   (flag_overridesFileChanged flags \<or> flag_overridePropertyChanged flags)) \<and>
                list_all2 (\<lambda>arg w. fileWorkload env flags arg = Inr w) (sort args) ws \<and>
                mergeInOrder env loaded (zip (sort args) ws) = Some merged))"
proof -
  from assms have s: "sort args' = sort args" by (rule sort_cong_mset)
  from assms have l: "length args' = length args" by (rule mset_eq_length)
  have m: "mergedState env flags args' = mergedState env flags args"
    unfolding mergedState_def s l by (rule refl)
  then have g: "generate env flags args' = generate env flags args"
    by (simp add: generate_def provisionedState_def)
  have t: "\<forall>merged. snd (mergedState env flags args') = Inr merged \<longleftrightarrow>
             (\<exists>loaded ws.
                snd (loadState env) = Inr loaded \<and>
                \<not> (length args \<noteq> 1 \<and>
                   (flag_overridesFileChanged flags \<or> flag_overridePropertyChanged flags)) \<and>
                list_all2 (\<lambda>arg w. fileWorkload env flags arg = Inr w) (sort args) ws \<and>
                mergeInOrder env loaded (zip (sort args) ws) = Some merged)"
    unfolding m by (rule allI) (rule mergedState_merged)
  from mergeCalls_mergedState [of args' env flags] s m g
  have "generate env flags args' = generate env flags args
       \<and> mergedState env flags args' = mergedState env flags args
       \<and> (\<exists>rest. sort args = mergeCalls (fst (mergedState env flags args')) @ rest)
       \<and> (\<forall>state. snd (mergedState env flags args') = Inr state \<longrightarrow>
             mergeCalls (fst (mergedState env flags args')) = sort args)"
    by auto
  with t show ?thesis by (intro conjI) (elim conjE, assumption)+
qed

theorem generate_merges_in_sorted_order_witness:
  "mset [''b.score.yaml'', ''a.score.yaml''] = mset [''a.score.yaml'', ''b.score.yaml'']
   \<and> generate ex_gen_env ex_flags [''b.score.yaml'', ''a.score.yaml'']
       = generate ex_gen_env ex_flags [''a.score.yaml'', ''b.score.yaml'']
   \<and> mergeCalls (fst (mergedState ex_gen_env ex_flags [''b.score.yaml'', ''a.score.yaml'']))
       = [''a.score.yaml'', ''b.score.yaml'']
   \<and> snd (mergedState ex_gen_env ex_flags [''b.score.yaml'', ''a.score.yaml''])
       = Inr ex_merged_state
   \<and> map fst (Workloads ex_merged_state) = [''a.score.yaml'', ''b.score.yaml'']"
proof -
  let ?ba = "[''b.score.yaml'', ''a.score.yaml'']"
  let ?ab = "[''a.score.yaml'', ''b.score.yaml'']"
  let ?ws = "[ex_workload (ex_doc ''a.score.yaml''), ex_workload (ex_doc ''b.score.yaml'')]"
  have p: "mset ?ba = mset ?ab"
    by simp
  have s: "sort ?ab = ?ab"
    by code_simp
  note t = generate_merges_in_sorted_order [OF p, of ex_gen_env ex_flags]
  note g = t [THEN conjunct1]
  have ld: "snd (loadState ex_gen_env) = Inr ex_state"
    by code_simp
  have fl: "\<not> (length ?ab \<noteq> 1 \<and>
              (flag_overridesFileChanged ex_flags \<or> flag_overridePropertyChanged ex_flags))"
    by (simp add: ex_flags_def)
  have fw: "list_all2 (\<lambda>arg w. fileWorkload ex_gen_env ex_flags arg = Inr w) (sort ?ab) ?ws"
    unfolding s by code_simp
  have mg: "mergeInOrder ex_gen_env ex_state (zip (sort ?ab) ?ws) = Some ex_merged_state"
    unfolding s by code_simp
  have "\<exists>loaded ws.
          snd (loadState ex_gen_env) = Inr loaded \<and>
          \<not> (length ?ab \<noteq> 1 \<and>
             (flag_overridesFileChanged ex_flags \<or> flag_overridePropertyChanged ex_flags)) \<and>
          list_all2 (\<lambda>arg w. fileWorkload ex_gen_env ex_flags arg = Inr w) (sort ?ab) ws \<and>
          mergeInOrder ex_gen_env loaded (zip (sort ?ab) ws) = Some ex_merged_state"
    using ld fl fw mg by blast
  with t [THEN conjunct2, THEN conjunct2, THEN conjunct2, THEN conjunct2, rule_format,
      of ex_merged_state]
  have m: "snd (mergedState ex_gen_env ex_flags ?ba) = Inr ex_merged_state"
    by (rule iffD2)
  note a = t [THEN conjunct2, THEN conjunct2, THEN conjunct2, THEN conjunct1, rule_format, OF m]
  have c: "mergeCalls (fst (mergedState ex_gen_env ex_flags ?ba)) = ?ab"
    using a by (simp only: s)
  have w: "map fst (Workloads ex_merged_state) = ?ab"
    by (simp add: ex_merged_state_def)
  from p g c m w show ?thesis by (intro conjI)
qed

section \<open>The empty project\<close>

lemma mergedState_events: "list_all isIngestEvent (fst (mergedState env flags args))"
proof -
  have f: "list_all isIngestEvent (fst (ingestFile env flags state arg))" for state arg
    by (simp add: fst_ingestFile fst_applyOverrides split: sum.splits)
  have fs: "list_all isIngestEvent (fst (ingestFiles env flags state xs))" for state xs
    by (induction xs arbitrary: state) (auto intro!: list_all_andThen f)
  show ?thesis
    unfolding mergedState_def
    by (rule list_all_andThen) (auto simp: fst_loadState fs)
qed

lemma ingest_not_provisioning: "list_all isIngestEvent t \<Longrightarrow> \<not> list_ex isProvisioning t"
proof (induction t)
  case Nil
  then show ?case by simp
next
  case (Cons ev t)
  then show ?case by (cases ev) simp_all
qed

lemma mergedState_no_files:
  "\<not> (flag_overridesFileChanged flags \<or> flag_overridePropertyChanged flags) \<Longrightarrow>
     mergedState env flags [] = loadState env"
  by (cases "loadState env"; cases "snd (loadState env)") (auto simp: mergedState_def ok_def)

text \<open>
  Claim C4, as the code has it. The check of line 217 reads the workloads of the project
  state after the merge, not the number of files supplied. When that state holds no
  workload, \<open>generate\<close> fails with the empty-project error having done nothing but
  read files and merge workloads: no priming, no loading of provisioners, no provisioning.
  In particular, with zero files supplied and a loaded state without workloads,
  \<open>generate\<close> fails before any priming or provisioning. With zero files supplied and a
  loaded state that holds a workload it goes on, as the example after the theorem shows.
\<close>

theorem empty_project_aborts_before_provisioning:
  "(snd (mergedState env flags args) = Inr state \<and> length (Workloads state) = 0 \<longrightarrow>
      generate env flags args = (fst (mergedState env flags args), Inl ProjectEmpty)
      \<and> \<not> list_ex isProvisioning (fst (generate env flags args)))
   \<and> (snd (loadState env) = Inr state \<and> length (Workloads state) = 0 \<longrightarrow>
      (\<exists>err. snd (generate env flags []) = Inl err)
      \<and> \<not> list_ex isProvisioning (fst (generate env flags [])))"
proof (intro conjI impI)
  assume a: "snd (mergedState env flags args) = Inr state \<and> length (Workloads state) = 0"
  then have p: "provisionedState env flags args = (fst (mergedState env flags args), Inl ProjectEmpty)"
    by (cases "mergedState env flags args") (simp add: provisionedState_def)
  then show g: "generate env flags args = (fst (mergedState env flags args), Inl ProjectEmpty)"
    by (simp add: generate_def)
  show "\<not> list_ex isProvisioning (fst (generate env flags args))"
    unfolding g using mergedState_events [of env flags args]
    by (simp add: ingest_not_provisioning)
next
  assume a: "snd (loadState env) = Inr state \<and> length (Workloads state) = 0"
  have m: "snd (mergedState env flags []) = Inl AmbiguousOverrides
            \<or> snd (mergedState env flags []) = Inr state"
    using a by (simp add: mergedState_def snd_andThen)
  have pe: "\<exists>err. snd (provisionedState env flags []) = Inl err"
    and pt: "fst (provisionedState env flags []) = fst (mergedState env flags [])"
    using m a by (auto simp: provisionedState_def snd_andThen fst_andThen)
  from pe obtain err where e: "snd (provisionedState env flags []) = Inl err" by blast
  then have g: "generate env flags [] = (fst (mergedState env flags []), Inl err)"
    using pt by (cases "provisionedState env flags []") (simp add: generate_def)
  then show "\<exists>err. snd (generate env flags []) = Inl err" by simp
  show "\<not> list_ex isProvisioning (fst (generate env flags []))"
    unfolding g using mergedState_events [of env flags "[]"]
    by (simp add: ingest_not_provisioning)
qed

theorem generate_without_files_counterexample:
  "snd (generate ex_loaded_env ex_flags []) = Inr ()
   \<and> list_ex isProvisioning (fst (generate ex_loaded_env ex_flags []))"
  by code_simp

theorem empty_project_aborts_before_provisioning_witness:
  "generate ex_gen_env ex_flags [] = ([ReadFile ''.score-k8s/state.yaml''], Inl ProjectEmpty)
   \<and> \<not> list_ex isProvisioning (fst (generate ex_gen_env ex_flags []))"
proof -
  have m: "mergedState ex_gen_env ex_flags [] = ([ReadFile ''.score-k8s/state.yaml''], Inr ex_state)"
    by code_simp
  have w: "length (Workloads ex_state) = 0"
    by (simp add: ex_state_def)
  note t = empty_project_aborts_before_provisioning [of ex_gen_env ex_flags "[]" ex_state,
      THEN conjunct1, rule_format]
  have "snd (mergedState ex_gen_env ex_flags []) = Inr ex_state \<and> length (Workloads ex_state) = 0"
    using m w by simp
  from t [OF this] show ?thesis unfolding m fst_conv .
qed

section \<open>Assembling and emitting the manifests\<close>


















section \<open>Override properties\<close>

lemma strings_SplitN2_none: "sep \<notin> set s \<Longrightarrow> strings_SplitN2 s sep = [s]"
proof -
  assume "sep \<notin> set s"
  then have "dropWhile (\<lambda>c. c \<noteq> sep) s = []" by (induction s) auto
  then show ?thesis by (simp only: strings_SplitN2_def list.case)
qed

lemma strings_SplitN2_first:
  "sep \<notin> set path \<Longrightarrow> strings_SplitN2 (path @ sep # v) sep = [path, v]"
proof -
  assume a: "sep \<notin> set path"
  then have d: "dropWhile (\<lambda>c. c \<noteq> sep) (path @ sep # v) = sep # v"
    by (induction path) auto
  from a have t: "takeWhile (\<lambda>c. c \<noteq> sep) (path @ sep # v) = path"
    by (induction path) auto
  from d t show ?thesis by (simp only: strings_SplitN2_def list.case)
qed

text \<open>
  Claim C9. For every dot-path override entry that \<open>generate\<close> applies: an entry
  without a \<open>=\<close> separator is an error; an entry whose value part after the first
  \<open>=\<close> is empty asks the framework to delete the dot-path from the in-memory workload
  document; an entry with a non-empty value part parses the value as YAML and asks the
  framework to set the dot-path to the parsed value. This happens before validation: the
  document that is upgraded, validated and decoded is the document after the override.
\<close>

theorem override_property_entry:
  "(CHR ''='' \<notin> set entry \<longrightarrow>
      parseAndApplyOverrideProperty env entry spec = Inl (OverridePropertyInvalid entry))
   \<and> (CHR ''='' \<notin> set path \<longrightarrow>
      parseAndApplyOverrideProperty env (path @ ''='') spec =
        (case OverridePathInMap env spec (ParseDotPathParts env path) True YNull of
           None \<Rightarrow> Inl (OverridePropertyApplyFailed (path @ ''=''))
         | Some after \<Rightarrow> Inr after))
   \<and> (CHR ''='' \<notin> set path \<and> v \<noteq> [] \<longrightarrow>
      parseAndApplyOverrideProperty env (path @ ''='' @ v) spec =
        (case yaml_Unmarshal env v of
           None \<Rightarrow> Inl (OverridePropertyUnmarshalFailed (path @ ''='' @ v))
         | Some parsed \<Rightarrow>
             (case OverridePathInMap env spec (ParseDotPathParts env path) False parsed of
                None \<Rightarrow> Inl (OverridePropertyApplyFailed (path @ ''='' @ v))
              | Some after \<Rightarrow> Inr after)))
   \<and> (snd (readScoreFile env arg) = Inr spec \<and> flag_overridesFile flags = [] \<and>
        flag_overrideProperty flags = [entry] \<and>
        parseAndApplyOverrideProperty env entry spec = Inr after \<longrightarrow>
      snd (ingestFile env flags state arg) =
        (case decodeWorkload env flags arg after of
           Inl err \<Rightarrow> Inl err
         | Inr workload \<Rightarrow>
             (case WithWorkload env state workload arg of
                None \<Rightarrow> Inl (AddWorkloadFailed arg)
              | Some state' \<Rightarrow> Inr state')))"
proof (intro conjI impI)
  assume "CHR ''='' \<notin> set entry"
  then show "parseAndApplyOverrideProperty env entry spec = Inl (OverridePropertyInvalid entry)"
    by (simp add: parseAndApplyOverrideProperty_def strings_SplitN2_none)
next
  assume "CHR ''='' \<notin> set path"
  from strings_SplitN2_first [OF this, of "[]"]
  show "parseAndApplyOverrideProperty env (path @ ''='') spec =
        (case OverridePathInMap env spec (ParseDotPathParts env path) True YNull of
           None \<Rightarrow> Inl (OverridePropertyApplyFailed (path @ ''=''))
         | Some after \<Rightarrow> Inr after)"
    by (simp add: parseAndApplyOverrideProperty_def split: option.splits)
next
  assume a: "CHR ''='' \<notin> set path \<and> v \<noteq> []"
  then have "strings_SplitN2 (path @ ''='' @ v) (CHR ''='') = [path, v]"
    using strings_SplitN2_first [of "CHR ''=''" path v] by simp
  with a show "parseAndApplyOverrideProperty env (path @ ''='' @ v) spec =
        (case yaml_Unmarshal env v of
           None \<Rightarrow> Inl (OverridePropertyUnmarshalFailed (path @ ''='' @ v))
         | Some parsed \<Rightarrow>
             (case OverridePathInMap env spec (ParseDotPathParts env path) False parsed of
                None \<Rightarrow> Inl (OverridePropertyApplyFailed (path @ ''='' @ v))
              | Some after \<Rightarrow> Inr after))"
    by (simp add: parseAndApplyOverrideProperty_def split: option.splits)
next
  assume a: "snd (readScoreFile env arg) = Inr spec \<and> flag_overridesFile flags = [] \<and>
        flag_overrideProperty flags = [entry] \<and>
        parseAndApplyOverrideProperty env entry spec = Inr after"
  then have "snd (applyOverrides env flags spec) = Inr after"
    by (simp add: applyOverrides_def snd_andThen)
  with a show "snd (ingestFile env flags state arg) =
        (case decodeWorkload env flags arg after of
           Inl err \<Rightarrow> Inl err
         | Inr workload \<Rightarrow>
             (case WithWorkload env state workload arg of
                None \<Rightarrow> Inl (AddWorkloadFailed arg)
              | Some state' \<Rightarrow> Inr state'))"
    by (simp add: ingestFile_def snd_andThen split: sum.splits)
qed

theorem override_property_entry_witness:
  "parseAndApplyOverrideProperty ex_gen_env ''foo.bar'' (ex_doc ''a'')
     = Inl (OverridePropertyInvalid ''foo.bar'')
   \<and> parseAndApplyOverrideProperty ex_gen_env ''foo.bar='' (ex_doc ''a'')
     = Inr [(''foo'', YMap [(''baz'', YScalar ''2'')]),
            (''metadata'', YMap [(''name'', YScalar ''a'')])]
   \<and> parseAndApplyOverrideProperty ex_gen_env ''foo.bar=5'' (ex_doc ''a'')
     = Inr [(''foo'', YMap [(''bar'', YScalar ''5''), (''baz'', YScalar ''2'')]),
            (''metadata'', YMap [(''name'', YScalar ''a'')])]"
proof -
  note t = override_property_entry [of "''foo.bar''" ex_gen_env "ex_doc ''a''" "''foo.bar''" "''5''"]
  have n: "CHR ''='' \<notin> set ''foo.bar''" by simp
  have v: "CHR ''='' \<notin> set ''foo.bar'' \<and> ''5'' \<noteq> []" by simp
  have d: "OverridePathInMap ex_gen_env (ex_doc ''a'') (ParseDotPathParts ex_gen_env ''foo.bar'')
             True YNull
           = Some [(''foo'', YMap [(''baz'', YScalar ''2'')]),
                   (''metadata'', YMap [(''name'', YScalar ''a'')])]"
    by code_simp
  have u: "yaml_Unmarshal ex_gen_env ''5'' = Some (YScalar ''5'')"
    by (simp add: ex_gen_env_def)
  have s: "OverridePathInMap ex_gen_env (ex_doc ''a'') (ParseDotPathParts ex_gen_env ''foo.bar'')
             False (YScalar ''5'')
           = Some [(''foo'', YMap [(''bar'', YScalar ''5''), (''baz'', YScalar ''2'')]),
                   (''metadata'', YMap [(''name'', YScalar ''a'')])]"
    by code_simp
  from t [THEN conjunct1, rule_format, OF n]
  have a: "parseAndApplyOverrideProperty ex_gen_env ''foo.bar'' (ex_doc ''a'')
     = Inl (OverridePropertyInvalid ''foo.bar'')" .
  from t [THEN conjunct2, THEN conjunct1, rule_format, OF n]
  have b: "parseAndApplyOverrideProperty ex_gen_env ''foo.bar='' (ex_doc ''a'')
     = Inr [(''foo'', YMap [(''baz'', YScalar ''2'')]),
            (''metadata'', YMap [(''name'', YScalar ''a'')])]"
    by (simp add: d)
  from t [THEN conjunct2, THEN conjunct2, THEN conjunct1, rule_format, OF v]
  have c: "parseAndApplyOverrideProperty ex_gen_env ''foo.bar=5'' (ex_doc ''a'')
     = Inr [(''foo'', YMap [(''bar'', YScalar ''5''), (''baz'', YScalar ''2'')]),
            (''metadata'', YMap [(''name'', YScalar ''a'')])]"
    by (simp add: u s)
  from a b c show ?thesis by (intro conjI)
qed

end
